theory Spec2Isabelle
  imports Complex_Main
begin

section \<open>Values the notebook computes with\<close>

text \<open>
  The notebook \<^verbatim>\<open>scripts/CIROH_Datasets.ipynb\<close> is a flat script: six code cells that
  load arrays with pandas, numpy and xarray, transform them and hand them to matplotlib.
  Each cell is embedded as a function; the library operations a cell calls are embedded
  by their documented behaviour on the arrays the cell passes to them.

  A float64 cell is a real number or the not-a-number marker \<^verbatim>\<open>np.nan\<close>. Rounding is not
  modelled: the properties below are about which operation reaches which cell.
\<close>

datatype float64 = Val real | NaN

text \<open>Arithmetic of an array cell with a Python scalar; not-a-number propagates.\<close>

fun fmul :: "float64 \<Rightarrow> real \<Rightarrow> float64" where
  "fmul (Val x) c = Val (x * c)"
| "fmul NaN c = NaN"

fun fsub :: "float64 \<Rightarrow> real \<Rightarrow> float64" where
  "fsub (Val x) c = Val (x - c)"
| "fsub NaN c = NaN"

fun fdiv :: "float64 \<Rightarrow> real \<Rightarrow> float64" where
  "fdiv (Val x) c = Val (x / c)"
| "fdiv NaN c = NaN"

text \<open>\<^verbatim>\<open>x == c\<close> on a float cell: not-a-number compares unequal to everything.\<close>

fun feq :: "float64 \<Rightarrow> real \<Rightarrow> bool" where
  "feq (Val x) c = (x = c)"
| "feq NaN c = False"

text \<open>The exceptions the cells can end with.\<close>

datatype error =
  FileNotFoundError | KeyError | IndexError | AttributeError | TypeError | ValueError
  | OutOfBoundsDatetime

section \<open>Two-dimensional arrays\<close>

text \<open>
  \<^verbatim>\<open>np.array(pd.read_csv(..., index_col=0))\<close> is a two-dimensional array, of integers when
  every field of the file is an integer and of floats otherwise. An array is the list of
  its rows.
\<close>

datatype ndarray = IntArr "int list list" | FloatArr "float64 list list"

definition shape :: "'a list list \<Rightarrow> nat \<times> nat" where
  "shape g = (length g, case g of [] \<Rightarrow> 0 | r # _ \<Rightarrow> length r)"

fun arr_shape :: "ndarray \<Rightarrow> nat \<times> nat" where
  "arr_shape (IntArr g) = shape g"
| "arr_shape (FloatArr g) = shape g"

text \<open>Rows of one length, as the rows of every numpy array are.\<close>

definition rect :: "'a list list \<Rightarrow> bool" where
  "rect g \<longleftrightarrow> list_all (\<lambda>r. length r = snd (shape g)) g"

fun arr_rect :: "ndarray \<Rightarrow> bool" where
  "arr_rect (IntArr g) = rect g"
| "arr_rect (FloatArr g) = rect g"

text \<open>\<^verbatim>\<open>a.astype('float')\<close>: the cells as floats, always in a new array.\<close>

fun astype_float :: "ndarray \<Rightarrow> float64 list list" where
  "astype_float (IntArr g) = map (map (\<lambda>i. Val (of_int i))) g"
| "astype_float (FloatArr g) = g"

text \<open>\<^verbatim>\<open>a == c\<close>: the boolean array of the cell-wise comparison.\<close>

definition eq_scalar :: "float64 list list \<Rightarrow> real \<Rightarrow> bool list list" where
  "eq_scalar g c = map (map (\<lambda>x. feq x c)) g"

text \<open>
  \<^verbatim>\<open>a[m] = v\<close> for a boolean array \<^verbatim>\<open>m\<close> of the shape of \<^verbatim>\<open>a\<close>: the cells where \<^verbatim>\<open>m\<close> holds
  become \<^verbatim>\<open>v\<close>.
\<close>

definition setitem_mask :: "'a list list \<Rightarrow> bool list list \<Rightarrow> 'a \<Rightarrow> 'a list list" where
  "setitem_mask g m v = map2 (\<lambda>row mrow. map2 (\<lambda>x b. if b then v else x) row mrow) g m"

text \<open>
  The sentinel masking of the overview cell, on the float copy of the orientation grid:
  \<^verbatim>\<open>orientx[orientx == 9] = np.nan\<close>.
\<close>

definition flat_to_nan :: "float64 list list \<Rightarrow> float64 list list" where
  "flat_to_nan orientx = setitem_mask orientx (eq_scalar orientx 9) NaN"

section \<open>Calendar dates\<close>

text \<open>
  A timestamp is a numpy \<^verbatim>\<open>datetime64[ns]\<close>: the nanoseconds since 1970-01-01T00:00. The
  notebook names days by strings such as \<^verbatim>\<open>'2017-01-07'\<close>; pandas turns such a string into
  a day number and numpy turns a day number back into such a string, both through the
  proleptic Gregorian calendar of numpy's datetime code, which the definitions of this
  section follow.
\<close>

definition ns_per_day :: int where
  "ns_per_day = 24 * 60 * 60 * 1000000000"

text \<open>The least 64-bit value stands for a missing timestamp.\<close>

definition NaT :: int where
  "NaT = - (2 ^ 63)"

record datetimestruct =
  year :: int
  month :: int
  day :: int

definition is_leapyear :: "int \<Rightarrow> bool" where
  "is_leapyear y \<longleftrightarrow> y mod 4 = 0 \<and> (y mod 100 \<noteq> 0 \<or> y mod 400 = 0)"

definition days_per_month_table :: "bool \<Rightarrow> int list" where
  "days_per_month_table leap =
     (if leap then [31, 29, 31, 30, 31, 30, 31, 31, 30, 31, 30, 31]
      else [31, 28, 31, 30, 31, 30, 31, 31, 30, 31, 30, 31])"




text \<open>
  The year of a day number and the day within that year, by the cycles of 400, 100, 4 and
  1 years counted from 2000-01-01.
\<close>

definition days_to_yearsdays :: "int \<Rightarrow> int \<times> int" where
  "days_to_yearsdays n =
     (let d0 = n - (365 * 30 + 7);
          y400 = 400 * (d0 div 146097);
          d = d0 mod 146097
      in if 366 \<le> d then
           (let y100 = 100 * ((d - 1) div 36524);
                d1 = (d - 1) mod 36524
            in if 365 \<le> d1 then
                 (let y4 = 4 * ((d1 + 1) div 1461);
                      d2 = (d1 + 1) mod 1461
                  in if 366 \<le> d2
                     then (2000 + y400 + y100 + y4 + (d2 - 1) div 365, (d2 - 1) mod 365)
                     else (2000 + y400 + y100 + y4, d2))
               else (2000 + y400 + y100, d1))
         else (2000 + y400, d))"

text \<open>
  The month and the day of the month of a day within a year: the loop over the table of
  month lengths. When the table is used up the fields keep their initial value, the
  first of January.
\<close>

fun month_and_day :: "int list \<Rightarrow> int \<Rightarrow> int \<Rightarrow> int \<times> int" where
  "month_and_day [] i d = (1, 1)"
| "month_and_day (l # ls) i d =
     (if d < l then (i + 1, d + 1) else month_and_day ls (i + 1) (d - l))"

definition set_datetimestruct_days :: "int \<Rightarrow> datetimestruct" where
  "set_datetimestruct_days n =
     (let (y, d) = days_to_yearsdays n;
          (m, dd) = month_and_day (days_per_month_table (is_leapyear y)) 0 d
      in \<lparr>year = y, month = m, day = dd\<rparr>)"

subsection \<open>Dates as text\<close>

definition digit_char :: "nat \<Rightarrow> char" where
  "digit_char n = ''0123456789'' ! n"

fun decimal :: "nat \<Rightarrow> string" where
  "decimal n = (if n < 10 then [digit_char n] else decimal (n div 10) @ [digit_char (n mod 10)])"

definition zero_pad :: "nat \<Rightarrow> string \<Rightarrow> string" where
  "zero_pad w s = replicate (w - length s) (CHR ''0'') @ s"

text \<open>\<^verbatim>\<open>printf("%0wd", i)\<close>: the sign counts in the width and the zeros follow it.\<close>

definition printf_0d :: "nat \<Rightarrow> int \<Rightarrow> string" where
  "printf_0d w i =
     (if i < 0 then CHR ''-'' # zero_pad (w - 1) (decimal (nat (- i)))
      else zero_pad w (decimal (nat i)))"

text \<open>The ISO 8601 text of a date at the unit of days: \<^verbatim>\<open>YYYY-MM-DD\<close>.\<close>

definition make_iso_8601_date :: "datetimestruct \<Rightarrow> string" where
  "make_iso_8601_date dts =
     printf_0d 4 (year dts) @ ''-'' @ printf_0d 2 (month dts) @ ''-'' @ printf_0d 2 (day dts)"

text \<open>\<^verbatim>\<open>np.datetime_as_string(t, unit="D")\<close> of a timestamp.\<close>

definition datetime_as_string_D :: "int \<Rightarrow> string" where
  "datetime_as_string_D t =
     (if t = NaT then ''NaT''
      else make_iso_8601_date (set_datetimestruct_days (t div ns_per_day)))"




section \<open>Gridded datasets\<close>

text \<open>
  An xarray dataset as the ERA5 files hold it: the coordinate axes \<^verbatim>\<open>time\<close>, \<^verbatim>\<open>latitude\<close> and
  \<^verbatim>\<open>longitude\<close>, and named data variables, each an array indexed by time, latitude and
  longitude.
\<close>

record dataset =
  time :: "int list"
  latitude :: "real list"
  longitude :: "real list"
  data_vars :: "(string \<times> float64 list list list) list"

text \<open>What xarray keeps true of a dataset: every variable has the lengths of its axes.\<close>

definition wf_dataset :: "dataset \<Rightarrow> bool" where
  "wf_dataset ds \<longleftrightarrow>
     list_all (\<lambda>(n, a). length a = length (time ds)
        \<and> list_all (\<lambda>plane. length plane = length (latitude ds)
              \<and> list_all (\<lambda>row. length row = length (longitude ds)) plane) a)
       (data_vars ds)"

definition and_then :: "error + 'a \<Rightarrow> ('a \<Rightarrow> error + 'b) \<Rightarrow> error + 'b" where
  "and_then r f = (case r of Inl e \<Rightarrow> Inl e | Inr x \<Rightarrow> f x)"

text \<open>
  \<^verbatim>\<open>xr.open_dataset(path)\<close>: the files are an input of the notebook, given as the dataset
  each path holds.
\<close>

definition open_dataset :: "(string \<Rightarrow> dataset option) \<Rightarrow> string \<Rightarrow> error + dataset" where
  "open_dataset disk path = (case disk path of None \<Rightarrow> Inl FileNotFoundError | Some ds \<Rightarrow> Inr ds)"

text \<open>
  Arithmetic of a dataset with a scalar acts on every cell of every data variable and
  copies the coordinates.
\<close>

definition map_data :: "(float64 \<Rightarrow> float64) \<Rightarrow> dataset \<Rightarrow> dataset" where
  "map_data f ds = ds\<lparr>data_vars := map (\<lambda>(n, a). (n, map (map (map f)) a)) (data_vars ds)\<rparr>"

definition ds_mul :: "dataset \<Rightarrow> real \<Rightarrow> dataset" where
  "ds_mul ds c = map_data (\<lambda>x. fmul x c) ds"

definition ds_sub :: "dataset \<Rightarrow> real \<Rightarrow> dataset" where
  "ds_sub ds c = map_data (\<lambda>x. fsub x c) ds"

definition ds_div :: "dataset \<Rightarrow> real \<Rightarrow> dataset" where
  "ds_div ds c = map_data (\<lambda>x. fdiv x c) ds"

text \<open>
  A dataset is the conversion of a raw one by \<open>f\<close> when it has the same variables of the
  same shape and every cell is \<open>f\<close> of the raw cell.
\<close>

definition converted :: "(float64 \<Rightarrow> float64) \<Rightarrow> dataset \<Rightarrow> dataset \<Rightarrow> bool" where
  "converted f raw ds \<longleftrightarrow>
     map fst (data_vars ds) = map fst (data_vars raw)
     \<and> (\<forall>k < length (data_vars raw).
          length (snd (data_vars ds ! k)) = length (snd (data_vars raw ! k))
          \<and> (\<forall>t < length (snd (data_vars raw ! k)).
               length (snd (data_vars ds ! k) ! t) = length (snd (data_vars raw ! k) ! t)
               \<and> (\<forall>i < length (snd (data_vars raw ! k) ! t).
                    length (snd (data_vars ds ! k) ! t ! i) = length (snd (data_vars raw ! k) ! t ! i)
                    \<and> (\<forall>j < length (snd (data_vars raw ! k) ! t ! i).
                         snd (data_vars ds ! k) ! t ! i ! j = f (snd (data_vars raw ! k) ! t ! i ! j)))))"

text \<open>The six variables the ERA5 cells bind.\<close>

record era5 =
  IVT :: dataset
  precip :: dataset
  temp700 :: dataset
  uwinds700 :: dataset
  vwinds700 :: dataset
  hgt500 :: dataset

text \<open>The loading cell: six files are opened in turn, three of them converted.\<close>

definition load_era5 :: "(string \<Rightarrow> dataset option) \<Rightarrow> error + era5" where
  "load_era5 disk =
     and_then (open_dataset disk ''../datasets/era5_atmos/IVT_sfc.nc'') (\<lambda>i.
     and_then (open_dataset disk ''../datasets/era5_atmos/precip_sfc.nc'') (\<lambda>p.
     and_then (open_dataset disk ''../datasets/era5_atmos/temp_700.nc'') (\<lambda>t.
     and_then (open_dataset disk ''../datasets/era5_atmos/uwnd_700.nc'') (\<lambda>u.
     and_then (open_dataset disk ''../datasets/era5_atmos/vwnd_700.nc'') (\<lambda>v.
     and_then (open_dataset disk ''../datasets/era5_atmos/hgt_500.nc'') (\<lambda>h.
       Inr \<lparr>IVT = i, precip = ds_mul p 1000, temp700 = ds_sub t 273.15,
            uwinds700 = u, vwinds700 = v, hgt500 = ds_div h 9.81\<rparr>))))))"

subsection \<open>Selecting a range of days\<close>

text \<open>
  The least 64-bit value is the missing timestamp \<^verbatim>\<open>NaT\<close>, so the timestamps pandas can
  hold lie strictly between \<open>- 2^63\<close> and \<open>2^63\<close>.
\<close>

definition in_ns_range :: "int \<Rightarrow> bool" where
  "in_ns_range t \<longleftrightarrow> - (2 ^ 63) < t \<and> t < 2 ^ 63"


text \<open>
  \<^verbatim>\<open>ds.sel(time=slice(a, b))\<close> for two day strings that pandas reads as the days with the
  numbers \<open>a\<close> and \<open>b\<close>. pandas casts each of the two days to its first and its last
  nanosecond, the last being the one before the first nanosecond of the next day, and
  raises when one of these is no timestamp it can hold; the slice starts at the first
  nanosecond of the one day and ends at the last nanosecond of the other. On an
  ascending index (\<^verbatim>\<open>is_monotonic_increasing\<close>, which an index holding \<^verbatim>\<open>NaT\<close> is not) it
  looks both bounds up by binary search (\<^verbatim>\<open>searchsorted\<close>, on the left of equal entries
  for the start and on their right for the end) and takes the positions between; xarray
  cuts the time axis and every data variable at these positions. On any other index
  pandas 2 raises a \<^verbatim>\<open>KeyError\<close> unless both bounds are entries of the index, and xarray
  raises a \<^verbatim>\<open>KeyError\<close> unless every entry lies within the bounds, in which case the
  dataset is returned whole.
\<close>

definition slice_bound_left :: "int \<Rightarrow> int" where
  "slice_bound_left a = a * ns_per_day"

definition slice_bound_right :: "int \<Rightarrow> int" where
  "slice_bound_right b = (b + 1) * ns_per_day - 1"

definition day_in_range :: "int \<Rightarrow> bool" where
  "day_in_range d \<longleftrightarrow>
     in_ns_range (slice_bound_left d) \<and> in_ns_range (slice_bound_left (d + 1))"

definition is_monotonic_increasing :: "int list \<Rightarrow> bool" where
  "is_monotonic_increasing ts \<longleftrightarrow> sorted ts \<and> NaT \<notin> set ts"

definition searchsorted_left :: "int list \<Rightarrow> int \<Rightarrow> nat" where
  "searchsorted_left xs v = length (takeWhile (\<lambda>x. x < v) xs)"

definition searchsorted_right :: "int list \<Rightarrow> int \<Rightarrow> nat" where
  "searchsorted_right xs v = length (takeWhile (\<lambda>x. x \<le> v) xs)"

text \<open>\<^verbatim>\<open>xs[lo:hi]\<close> for positions within the list: empty when \<^verbatim>\<open>hi\<close> is not beyond \<^verbatim>\<open>lo\<close>.\<close>

definition py_slice :: "nat \<Rightarrow> nat \<Rightarrow> 'a list \<Rightarrow> 'a list" where
  "py_slice lo hi xs = take (hi - lo) (drop lo xs)"

definition sel_time_slice :: "dataset \<Rightarrow> int \<Rightarrow> int \<Rightarrow> error + dataset" where
  "sel_time_slice ds a b =
     (if \<not> (day_in_range a \<and> day_in_range b)
      then Inl OutOfBoundsDatetime
      else if is_monotonic_increasing (time ds) then
        (let lo = searchsorted_left (time ds) (slice_bound_left a);
             hi = searchsorted_right (time ds) (slice_bound_right b)
         in Inr (ds\<lparr>time := py_slice lo hi (time ds),
                    data_vars := map (\<lambda>(n, arr). (n, py_slice lo hi arr)) (data_vars ds)\<rparr>))
      else if slice_bound_left a \<in> set (time ds) \<and> slice_bound_right b \<in> set (time ds)
              \<and> list_all (\<lambda>t. slice_bound_left a \<le> t \<and> t \<le> slice_bound_right b) (time ds)
      then Inr ds
      else Inl KeyError)"




text \<open>A month of daily records from 2017-01-01 on, one variable on a two by two grid.\<close>

definition january_2017 :: dataset where
  "january_2017 =
     \<lparr>time = map (\<lambda>k. (17167 + int k) * ns_per_day) [0..<31],
      latitude = [41, 40], longitude = [-112, -111],
      data_vars = [(''IVT'', map (\<lambda>k. [[Val (real k), NaN], [Val 0, Val 1]]) [0..<31])]\<rparr>"


text \<open>Six such files, as the loading cell expects them.\<close>

definition sample_field :: "string \<Rightarrow> real \<Rightarrow> dataset" where
  "sample_field name v =
     \<lparr>time = map (\<lambda>k. (17167 + int k) * ns_per_day) [0..<31],
      latitude = [41, 40], longitude = [-112, -111],
      data_vars = [(name, map (\<lambda>k. [[Val (v + real k), NaN], [Val v, Val (v * 2)]]) [0..<31])]\<rparr>"

definition era5_files :: "string \<Rightarrow> dataset option" where
  "era5_files = map_of
     [(''../datasets/era5_atmos/IVT_sfc.nc'', january_2017),
      (''../datasets/era5_atmos/precip_sfc.nc'', sample_field ''precip'' 0.002),
      (''../datasets/era5_atmos/temp_700.nc'', sample_field ''temp'' 270),
      (''../datasets/era5_atmos/uwnd_700.nc'', sample_field ''uwnd'' 5),
      (''../datasets/era5_atmos/vwnd_700.nc'', sample_field ''vwnd'' (- 3)),
      (''../datasets/era5_atmos/hgt_500.nc'', sample_field ''hgt'' 49050)]"

text \<open>What the loading cell makes of these files.\<close>

definition sample_era5 :: era5 where
  "sample_era5 =
     \<lparr>IVT = january_2017, precip = ds_mul (sample_field ''precip'' 0.002) 1000,
      temp700 = ds_sub (sample_field ''temp'' 270) 273.15,
      uwinds700 = sample_field ''uwnd'' 5, vwinds700 = sample_field ''vwnd'' (- 3),
      hgt500 = ds_div (sample_field ''hgt'' 49050) 9.81\<rparr>"

text \<open>
  The same datasets when only the geopotential height was cut, to the first week of the
  month.
\<close>

definition first_week :: "dataset \<Rightarrow> dataset" where
  "first_week ds =
     ds\<lparr>time := take 7 (time ds),
        data_vars := map (\<lambda>(n, arr). (n, take 7 arr)) (data_vars ds)\<rparr>"

definition uneven_era5 :: era5 where
  "uneven_era5 = sample_era5\<lparr>hgt500 := first_week (hgt500 sample_era5)\<rparr>"

section \<open>The array store and the figures\<close>

text \<open>
  A numpy array is an object: a Python variable holds a reference to it, and a masked
  assignment changes the object for every variable that refers to it. The store is the
  list of the arrays made so far; an address is a position in it, and a new array goes
  to the end.
\<close>

type_synonym addr = nat

definition alloc :: "ndarray list \<Rightarrow> ndarray \<Rightarrow> ndarray list \<times> addr" where
  "alloc h a = (h @ [a], length h)"

text \<open>
  What a cell hands to the plotting library, call by call. A figure is the list of the
  calls drawn on it, and \<^verbatim>\<open>savefig\<close> writes that list under a file name.
\<close>

datatype plot_call =
    Pcolormesh "float64 list list" "float64 list list" "float64 list list"
  | Text float64 float64 string
  | Scatter "int list" "float64 list"
  | Contourf "real list" "real list" "float64 list list"
  | Contour "real list" "real list" "float64 list list"
  | Barbs "real list" "real list" "float64 list list" "float64 list list"
  | Suptitle string
  | Mercator float64

type_synonym image = "plot_call list"

record session =
  heap :: "ndarray list"
  figures :: "string \<Rightarrow> image option"

text \<open>
  matplotlib and cartopy are not part of the notebook. What they raise on the arguments
  of a call is a parameter \<open>lib\<close> of every rendering cell: \<open>lib c = None\<close> when the call
  \<open>c\<close> draws, and the exception otherwise.
\<close>

definition draw :: "(plot_call \<Rightarrow> error option) \<Rightarrow> plot_call \<Rightarrow> error + plot_call" where
  "draw lib c = (case lib c of Some e \<Rightarrow> Inl e | None \<Rightarrow> Inr c)"

section \<open>Facets and observed gradients\<close>

text \<open>The table of observed gradients: the dates of its rows and a column per facet.\<close>

record table =
  index :: "string list"
  columns :: "(string \<times> float64 list) list"

text \<open>The variables of the loading cell: five arrays, by reference, and the table.\<close>

record facet_vars =
  elev :: addr
  facets :: addr
  lats :: addr
  lons :: addr
  orientation :: addr
  opg :: table

text \<open>The five references point into the store.\<close>

definition valid_refs :: "facet_vars \<Rightarrow> ndarray list \<Rightarrow> bool" where
  "valid_refs v h \<longleftrightarrow>
     elev v < length h \<and> facets v < length h \<and> lats v < length h \<and> lons v < length h
     \<and> orientation v < length h"

definition read_csv_array ::
  "(string \<Rightarrow> ndarray option) \<Rightarrow> string \<Rightarrow> ndarray list \<Rightarrow> error + (ndarray list \<times> addr)" where
  "read_csv_array disk path h =
     (case disk path of None \<Rightarrow> Inl FileNotFoundError | Some a \<Rightarrow> Inr (alloc h a))"

definition load_facets ::
  "(string \<Rightarrow> ndarray option) \<Rightarrow> (string \<Rightarrow> table option) \<Rightarrow> ndarray list
     \<Rightarrow> error + (facet_vars \<times> ndarray list)" where
  "load_facets disk tables h0 =
     and_then (read_csv_array disk ''../datasets/facets_and_opgs/elevation.csv'' h0) (\<lambda>(h1, e).
     and_then (read_csv_array disk ''../datasets/facets_and_opgs/facet_labels.csv'' h1) (\<lambda>(h2, f).
     and_then (read_csv_array disk ''../datasets/facets_and_opgs/lats.csv'' h2) (\<lambda>(h3, la).
     and_then (read_csv_array disk ''../datasets/facets_and_opgs/lons.csv'' h3) (\<lambda>(h4, lo).
     and_then (read_csv_array disk ''../datasets/facets_and_opgs/facet_orientation.csv'' h4) (\<lambda>(h5, ori).
       case tables ''../datasets/facets_and_opgs/winter_northernUT_opg.csv'' of
         None \<Rightarrow> Inl FileNotFoundError
       | Some t \<Rightarrow> Inr (\<lparr>elev = e, facets = f, lats = la, lons = lo, orientation = ori, opg = t\<rparr>, h5))))))"

text \<open>
  Files for a grid of two rows and two columns: facet 2131 takes three cells, two cells
  are flat.
\<close>

definition sample_csv :: "string \<Rightarrow> ndarray option" where
  "sample_csv = map_of
     [(''../datasets/facets_and_opgs/elevation.csv'',
         FloatArr [[Val 1500, Val 1600], [Val 1700, Val 1800]]),
      (''../datasets/facets_and_opgs/facet_labels.csv'', IntArr [[2131, 17], [2131, 2131]]),
      (''../datasets/facets_and_opgs/lats.csv'', FloatArr [[Val 41, Val 41], [Val 40, Val 40]]),
      (''../datasets/facets_and_opgs/lons.csv'',
         FloatArr [[Val (- 112), Val (- 111)], [Val (- 112), Val (- 111)]]),
      (''../datasets/facets_and_opgs/facet_orientation.csv'', IntArr [[9, 3], [1, 9]])]"

definition sample_tables :: "string \<Rightarrow> table option" where
  "sample_tables = map_of
     [(''../datasets/facets_and_opgs/winter_northernUT_opg.csv'',
         \<lparr>index = [''2017-01-07'', ''2017-01-08''],
          columns = [(''17'', [Val 0.004, Val 0.001]), (''2131'', [Val 0.01, NaN])]\<rparr>)]"

definition sample_vars :: facet_vars where
  "sample_vars = \<lparr>elev = 0, facets = 1, lats = 2, lons = 3, orientation = 4,
     opg = \<lparr>index = [''2017-01-07'', ''2017-01-08''],
            columns = [(''17'', [Val 0.004, Val 0.001]), (''2131'', [Val 0.01, NaN])]\<rparr>\<rparr>"

definition sample_heap :: "ndarray list" where
  "sample_heap =
     [FloatArr [[Val 1500, Val 1600], [Val 1700, Val 1800]],
      IntArr [[2131, 17], [2131, 2131]],
      FloatArr [[Val 41, Val 41], [Val 40, Val 40]],
      FloatArr [[Val (- 112), Val (- 111)], [Val (- 112), Val (- 111)]],
      IntArr [[9, 3], [1, 9]]]"

definition sample_session :: session where
  "sample_session = \<lparr>heap = sample_heap, figures = (\<lambda>_. None)\<rparr>"

text \<open>The same grids with no cell of facet 2131.\<close>

definition unlabelled_session :: session where
  "unlabelled_session =
     \<lparr>heap = sample_heap[1 := IntArr [[17, 17], [18, 18]]], figures = (\<lambda>_. None)\<rparr>"

text \<open>The same grids with facet 2131 on two cells.\<close>

definition paired_session :: session where
  "paired_session =
     \<lparr>heap = sample_heap[1 := IntArr [[2131, 17], [17, 2131]]], figures = (\<lambda>_. None)\<rparr>"

text \<open>The same grids with an elevation grid of one cell.\<close>

definition odd_elev_session :: session where
  "odd_elev_session =
     \<lparr>heap = sample_heap[0 := FloatArr [[Val 1500]]], figures = (\<lambda>_. None)\<rparr>"

text \<open>The same grids with a longitude grid of one row.\<close>

definition short_lons_session :: session where
  "short_lons_session =
     \<lparr>heap = sample_heap[3 := FloatArr [[Val (- 112), Val (- 111)]]], figures = (\<lambda>_. None)\<rparr>"

subsection \<open>The overview map\<close>

text \<open>\<^verbatim>\<open>a == c\<close> for an integer \<^verbatim>\<open>c\<close>, on an array of either kind.\<close>

fun eq_int :: "ndarray \<Rightarrow> int \<Rightarrow> bool list list" where
  "eq_int (IntArr g) c = map (map (\<lambda>x. x = c)) g"
| "eq_int (FloatArr g) c = eq_scalar g (of_int c)"

text \<open>
  \<^verbatim>\<open>a[m]\<close> for a boolean array \<^verbatim>\<open>m\<close>: the cells of \<^verbatim>\<open>a\<close> where \<^verbatim>\<open>m\<close> holds, row after row;
  an \<^verbatim>\<open>IndexError\<close> when \<^verbatim>\<open>m\<close> has not the shape of \<^verbatim>\<open>a\<close>.
\<close>

definition bool_index :: "float64 list list \<Rightarrow> bool list list \<Rightarrow> error + float64 list" where
  "bool_index a m =
     (if shape m = shape a then Inr (map fst (filter snd (zip (concat a) (concat m))))
      else Inl IndexError)"

text \<open>
  Following the claim's words, for comparison with \<open>bool_index\<close>: the values of \<open>a\<close> at the
  cells where \<open>m\<close> holds, by row and column.
\<close>

definition cells_at :: "'a list list \<Rightarrow> bool list list \<Rightarrow> 'a list" where
  "cells_at a m = [a ! i ! j. i \<leftarrow> [0..<length a], j \<leftarrow> [0..<length (a ! i)], m ! i ! j]"

text \<open>
  Following the claim's words, for comparison with \<open>np_median\<close>. A value is the \<open>k\<close>-th
  smallest of \<open>rs\<close> (counted from 0) when at most \<open>k\<close> of them are less and more than \<open>k\<close>
  are at most it. The median of \<open>rs\<close> is the mean of its two middle values, which are one
  value when the count is odd.
\<close>

definition kth_smallest :: "real \<Rightarrow> nat \<Rightarrow> real list \<Rightarrow> bool" where
  "kth_smallest x k rs \<longleftrightarrow>
     length (filter (\<lambda>y. y < x) rs) \<le> k \<and> k < length (filter (\<lambda>y. y \<le> x) rs)"

definition is_median :: "real \<Rightarrow> real list \<Rightarrow> bool" where
  "is_median m rs \<longleftrightarrow>
     (\<exists>lo \<in> set rs. \<exists>hi \<in> set rs.
        kth_smallest lo ((length rs - 1) div 2) rs \<and> kth_smallest hi (length rs div 2) rs
        \<and> m = (lo + hi) / 2)"

fun finite_vals :: "float64 list \<Rightarrow> real list option" where
  "finite_vals [] = Some []"
| "finite_vals (Val x # xs) = map_option (\<lambda>rs. x # rs) (finite_vals xs)"
| "finite_vals (NaN # xs) = None"

text \<open>
  \<^verbatim>\<open>np.median\<close> of a one-dimensional array: the middle of the sorted values, the mean of
  the two middle ones when their number is even; not-a-number (with a warning, no
  exception) for the empty array and when a value is not-a-number.
\<close>

definition np_median :: "float64 list \<Rightarrow> float64" where
  "np_median xs =
     (case finite_vals xs of
        None \<Rightarrow> NaN
      | Some rs \<Rightarrow>
          (let s = sort rs; n = length s
           in if n = 0 then NaN
              else if odd n then Val (s ! (n div 2))
              else Val ((s ! (n div 2 - 1) + s ! (n div 2)) / 2)))"

text \<open>
  The label position \<^verbatim>\<open>(np.median(lons[facets==F]), np.median(lats[facets==F]))\<close>; the
  notebook calls it with \<^verbatim>\<open>F = 2131\<close>.
\<close>

definition facet_centroid :: "ndarray list \<Rightarrow> facet_vars \<Rightarrow> int \<Rightarrow> error + float64 \<times> float64" where
  "facet_centroid h v F =
     and_then (bool_index (astype_float (h ! lons v)) (eq_int (h ! facets v) F)) (\<lambda>xs.
     and_then (bool_index (astype_float (h ! lats v)) (eq_int (h ! facets v) F)) (\<lambda>ys.
       Inr (np_median xs, np_median ys)))"

text \<open>\<^verbatim>\<open>a[a == 9] = np.nan\<close> on the array at an address, in place.\<close>

definition flat_to_nan_inplace :: "ndarray list \<Rightarrow> addr \<Rightarrow> error + ndarray list" where
  "flat_to_nan_inplace h p =
     (case h ! p of
        FloatArr g \<Rightarrow> Inr (h[p := FloatArr (flat_to_nan g)])
      | IntArr g \<Rightarrow> Inl ValueError)"

text \<open>
  The overview cell: the float copy of the orientation grid, masked in place; the mesh
  of the copy over the longitude and latitude grids; the label of facet 2131 at its
  centroid; the image. An exception ends the cell where it is raised, before
  \<^verbatim>\<open>savefig\<close>.
\<close>

definition overview_map ::
  "(plot_call \<Rightarrow> error option) \<Rightarrow> facet_vars \<Rightarrow> session \<Rightarrow> session \<times> error option" where
  "overview_map lib v s =
     (let (h1, orientx) = alloc (heap s) (FloatArr (astype_float (heap s ! orientation v)))
      in case flat_to_nan_inplace h1 orientx of
           Inl e \<Rightarrow> (s\<lparr>heap := h1\<rparr>, Some e)
         | Inr h2 \<Rightarrow>
             (case and_then (draw lib (Pcolormesh (astype_float (h2 ! lons v))
                                (astype_float (h2 ! lats v)) (astype_float (h2 ! orientx)))) (\<lambda>mesh.
                   and_then (facet_centroid h2 v 2131) (\<lambda>(x, y).
                   and_then (draw lib (Text x y ''2131'')) (\<lambda>label.
                     Inr [mesh, label]))) of
                Inl e \<Rightarrow> (s\<lparr>heap := h2\<rparr>, Some e)
              | Inr img \<Rightarrow>
                  (s\<lparr>heap := h2,
                     figures := (figures s)(''../figures/facet_orientations.png'' \<mapsto> img)\<rparr>, None)))"

subsection \<open>The time series of one facet\<close>

text \<open>
  The dates of the table are read by \<^verbatim>\<open>datetime.strptime\<close>, a parameter here, and the
  column of facet 2131 is scattered over them.
\<close>

fun map_result :: "('a \<Rightarrow> error + 'b) \<Rightarrow> 'a list \<Rightarrow> error + 'b list" where
  "map_result f [] = Inr []"
| "map_result f (x # xs) =
     and_then (f x) (\<lambda>y. and_then (map_result f xs) (\<lambda>ys. Inr (y # ys)))"

definition timeseries_plot ::
  "(plot_call \<Rightarrow> error option) \<Rightarrow> (string \<Rightarrow> error + int) \<Rightarrow> facet_vars \<Rightarrow> session
     \<Rightarrow> session \<times> error option" where
  "timeseries_plot lib strptime v s =
     (case and_then (map_result strptime (index (opg v))) (\<lambda>xdata.
           and_then (case map_of (columns (opg v)) ''2131'' of
                       None \<Rightarrow> Inl KeyError | Some col \<Rightarrow> Inr col) (\<lambda>col.
           and_then (draw lib (Scatter xdata col)) (\<lambda>sc. Inr [sc]))) of
        Inl e \<Rightarrow> (s, Some e)
      | Inr img \<Rightarrow>
          (s\<lparr>figures := (figures s)(''../figures/opg_timeseries_facet2131.png'' \<mapsto> img)\<rparr>, None))"

section \<open>The daily panels\<close>

text \<open>\<^verbatim>\<open>ds.name.values\<close>: the array of a data variable.\<close>

definition get_var :: "dataset \<Rightarrow> string \<Rightarrow> error + float64 list list list" where
  "get_var ds name =
     (case map_of (data_vars ds) name of None \<Rightarrow> Inl AttributeError | Some a \<Rightarrow> Inr a)"

text \<open>\<^verbatim>\<open>a[dayx,:,:]\<close> for a position counted from the start.\<close>

definition get_day :: "'a list \<Rightarrow> nat \<Rightarrow> error + 'a" where
  "get_day a dayx = (if dayx < length a then Inr (a ! dayx) else Inl IndexError)"

text \<open>\<^verbatim>\<open>xs[::5]\<close>: every fifth entry from the first on.\<close>

fun stride5 :: "'a list \<Rightarrow> 'a list" where
  "stride5 [] = []"
| "stride5 (x # xs) = x # stride5 (drop 4 xs)"

definition field_of_day :: "dataset \<Rightarrow> string \<Rightarrow> nat \<Rightarrow> error + float64 list list" where
  "field_of_day ds name dayx = and_then (get_var ds name) (\<lambda>a. get_day a dayx)"

definition knots :: "float64 list list \<Rightarrow> float64 list list" where
  "knots g = map (map (\<lambda>x. fmul x 1.94384)) (map stride5 (stride5 g))"

text \<open>
  \<^verbatim>\<open>np.mean\<close> of a two-dimensional array: the sum of all cells over their number;
  not-a-number (with a warning, no exception) for an array without cells and when a
  cell is not-a-number.
\<close>

definition np_mean :: "float64 list list \<Rightarrow> float64" where
  "np_mean g =
     (case finite_vals (concat g) of
        None \<Rightarrow> NaN
      | Some rs \<Rightarrow> if rs = [] then NaN else Val (sum_list rs / real (length rs)))"

text \<open>
  One pass of the loop: the figure with the projection of its axes, six panels in the
  order of the cell, the wind barbs on two of them, the date of the IVT axis at this
  position as title and in the file name.
\<close>

definition plot_day ::
  "(plot_call \<Rightarrow> error option) \<Rightarrow> plot_call \<Rightarrow> era5 \<Rightarrow> nat \<Rightarrow> error + string \<times> image" where
  "plot_day lib projex e dayx =
     and_then (field_of_day (IVT e) ''IVT'' dayx) (\<lambda>z1.
     and_then (draw lib (Contourf (longitude (IVT e)) (latitude (IVT e)) z1)) (\<lambda>c1.
     and_then (field_of_day (hgt500 e) ''hgt'' dayx) (\<lambda>z2.
     and_then (draw lib (Contour (longitude (hgt500 e)) (latitude (hgt500 e)) z2)) (\<lambda>c2.
     and_then (field_of_day (precip e) ''precip'' dayx) (\<lambda>z3.
     and_then (draw lib (Contourf (longitude (precip e)) (latitude (precip e)) z3)) (\<lambda>c3.
     and_then (field_of_day (uwinds700 e) ''uwnd'' dayx) (\<lambda>z4.
     and_then (draw lib (Contourf (longitude (uwinds700 e)) (latitude (uwinds700 e)) z4)) (\<lambda>c4.
     and_then (field_of_day (vwinds700 e) ''vwnd'' dayx) (\<lambda>z5.
     and_then (draw lib (Contourf (longitude (vwinds700 e)) (latitude (vwinds700 e)) z5)) (\<lambda>c5.
     and_then (field_of_day (temp700 e) ''temp'' dayx) (\<lambda>z6.
     and_then (draw lib (Contourf (longitude (temp700 e)) (latitude (temp700 e)) z6)) (\<lambda>c6.
     and_then (field_of_day (uwinds700 e) ''uwnd'' dayx) (\<lambda>u.
     and_then (field_of_day (vwinds700 e) ''vwnd'' dayx) (\<lambda>w.
     and_then (draw lib (Barbs (stride5 (longitude (uwinds700 e))) (stride5 (latitude (uwinds700 e)))
                           (knots u) (knots w))) (\<lambda>b1.
     and_then (draw lib (Barbs (stride5 (longitude (uwinds700 e))) (stride5 (latitude (uwinds700 e)))
                           (knots u) (knots w))) (\<lambda>b2.
     and_then (get_day (time (IVT e)) dayx) (\<lambda>t.
       Inr (''../figures/atmos_'' @ datetime_as_string_D t @ ''.png'',
            [projex, c1, c2, c3, c4, c5, c6, b1, b2,
             Suptitle (datetime_as_string_D t)]))))))))))))))))))"

text \<open>
  The loop \<^verbatim>\<open>for dayx in range(len(IVT.time.values))\<close>: an exception ends it, and the images
  of the days before stay written.
\<close>

fun plot_days ::
  "(plot_call \<Rightarrow> error option) \<Rightarrow> plot_call \<Rightarrow> era5 \<Rightarrow> nat list \<Rightarrow> session
     \<Rightarrow> session \<times> error option" where
  "plot_days lib projex e [] s = (s, None)"
| "plot_days lib projex e (dayx # rest) s =
     (case plot_day lib projex e dayx of
        Inl err \<Rightarrow> (s, Some err)
      | Inr (name, img) \<Rightarrow>
          plot_days lib projex e rest (s\<lparr>figures := (figures s)(name \<mapsto> img)\<rparr>))"

text \<open>
  The cell of the daily panels. Before the loop it makes the projection of all its
  axes, \<^verbatim>\<open>ccrs.Mercator(central_longitude=np.mean(lons))\<close>, from the longitude grid of the
  facets.
\<close>

definition daily_plots ::
  "(plot_call \<Rightarrow> error option) \<Rightarrow> facet_vars \<Rightarrow> era5 \<Rightarrow> session \<Rightarrow> session \<times> error option" where
  "daily_plots lib v e s =
     (case draw lib (Mercator (np_mean (astype_float (heap s ! lons v)))) of
        Inl err \<Rightarrow> (s, Some err)
      | Inr projex \<Rightarrow> plot_days lib projex e [0..<length (time (IVT e))] s)"

section \<open>Sentinel masking\<close>

lemma map2_self_map:
  "map2 (\<lambda>x b. if b then v else x) row (map P row) = map (\<lambda>x. if P x then v else x) row"
  by (induction row) auto

lemma flat_to_nan_cells:
  "flat_to_nan g = map (map (\<lambda>x. if feq x 9 then NaN else x)) g"
proof -
  have "map2 (\<lambda>row mrow. map2 (\<lambda>x b. if b then NaN else x) row mrow) g
          (map (map (\<lambda>x. feq x 9)) g)
        = map (map (\<lambda>x. if feq x 9 then NaN else x)) g"
    by (induction g) (auto simp: map2_self_map)
  then show ?thesis
    by (simp add: flat_to_nan_def setitem_mask_def eq_scalar_def)
qed

lemma feq_Val_iff: "feq x c \<longleftrightarrow> x = Val c"
  by (cases x) auto

lemma flat_to_nan_idem: "flat_to_nan (flat_to_nan g) = flat_to_nan g"
  by (simp add: flat_to_nan_cells comp_def)

text \<open>
  C3. For every orientation grid, the sentinel masking turns every cell equal to 9 into
  the not-a-number marker, leaves every other cell (so every code 1 to 8) as it is, keeps
  the shape, and is idempotent.
\<close>

theorem orientation_masking:
  "length (flat_to_nan G) = length G
   \<and> (\<forall>i < length G. length (flat_to_nan G ! i) = length (G ! i)
        \<and> (\<forall>j < length (G ! i).
              (G ! i ! j = Val 9 \<longrightarrow> flat_to_nan G ! i ! j = NaN)
            \<and> (G ! i ! j \<noteq> Val 9 \<longrightarrow> flat_to_nan G ! i ! j = G ! i ! j)
            \<and> (\<forall>k \<in> {1..8}. G ! i ! j = Val (of_int k) \<longrightarrow> flat_to_nan G ! i ! j = Val (of_int k))))
   \<and> flat_to_nan (flat_to_nan G) = flat_to_nan G"
  by (auto simp: flat_to_nan_cells feq_Val_iff comp_def)

theorem orientation_masking_witness:
  "flat_to_nan (astype_float (IntArr [[9, 3], [1, 9]])) = [[NaN, Val 3], [Val 1, NaN]]
   \<and> flat_to_nan [[NaN, Val 3], [Val 1, NaN]] = [[NaN, Val 3], [Val 1, NaN]]"
  using orientation_masking [of "astype_float (IntArr [[9, 3], [1, 9]])"]
  by (simp add: flat_to_nan_cells)

section \<open>Date subsetting\<close>

























section \<open>Unit conversion at load time\<close>

lemma open_dataset_Inr: "open_dataset disk p = Inr ds \<longleftrightarrow> disk p = Some ds"
  by (simp add: open_dataset_def split: option.splits)

lemma and_then_Inr: "and_then r f = Inr y \<longleftrightarrow> (\<exists>x. r = Inr x \<and> f x = Inr y)"
  by (cases r) (auto simp: and_then_def)

lemma load_era5_Inr:
  "load_era5 disk = Inr e \<longleftrightarrow>
     (\<exists>i p t u v h.
        disk ''../datasets/era5_atmos/IVT_sfc.nc'' = Some i
      \<and> disk ''../datasets/era5_atmos/precip_sfc.nc'' = Some p
      \<and> disk ''../datasets/era5_atmos/temp_700.nc'' = Some t
      \<and> disk ''../datasets/era5_atmos/uwnd_700.nc'' = Some u
      \<and> disk ''../datasets/era5_atmos/vwnd_700.nc'' = Some v
      \<and> disk ''../datasets/era5_atmos/hgt_500.nc'' = Some h
      \<and> e = \<lparr>IVT = i, precip = ds_mul p 1000, temp700 = ds_sub t 273.15,
              uwinds700 = u, vwinds700 = v, hgt500 = ds_div h 9.81\<rparr>)"
  unfolding load_era5_def and_then_Inr open_dataset_Inr by auto

lemma map_data_names: "map fst (data_vars (map_data f ds)) = map fst (data_vars ds)"
  by (simp add: map_data_def case_prod_unfold comp_def)

lemma map_data_cell:
  assumes "k < length (data_vars ds)" and "t < length (snd (data_vars ds ! k))"
    and "i < length (snd (data_vars ds ! k) ! t)" and "j < length (snd (data_vars ds ! k) ! t ! i)"
  shows "snd (data_vars (map_data f ds) ! k) ! t ! i ! j = f (snd (data_vars ds ! k) ! t ! i ! j)"
  using assms by (simp add: map_data_def case_prod_unfold)

lemma map_data_shape:
  assumes "k < length (data_vars ds)"
  shows "length (snd (data_vars (map_data f ds) ! k)) = length (snd (data_vars ds ! k))"
    and "t < length (snd (data_vars ds ! k)) \<Longrightarrow>
         length (snd (data_vars (map_data f ds) ! k) ! t) = length (snd (data_vars ds ! k) ! t)"
    and "t < length (snd (data_vars ds ! k)) \<Longrightarrow> i < length (snd (data_vars ds ! k) ! t) \<Longrightarrow>
         length (snd (data_vars (map_data f ds) ! k) ! t ! i) = length (snd (data_vars ds ! k) ! t ! i)"
  using assms by (simp_all add: map_data_def case_prod_unfold)

lemma map_data_coords:
  "time (map_data f ds) = time ds" "latitude (map_data f ds) = latitude ds"
  "longitude (map_data f ds) = longitude ds"
  by (simp_all add: map_data_def)

lemma converted_map_data: "converted f ds (map_data f ds)"
  unfolding converted_def
  by (simp add: map_data_names map_data_cell map_data_shape)

text \<open>
  C2. Whenever the loading cell succeeds, each of the six variables comes from its file:
  every precipitation cell is the file's cell times 1000, every 700 hPa temperature cell
  the file's cell minus 273.15, every geopotential cell the file's cell divided by 9.81,
  and IVT and the two wind components are the files' datasets as they are. No condition
  guards the conversions.
\<close>

theorem unit_conversion:
  assumes "load_era5 disk = Inr e"
  shows "\<exists>i p t u v h.
        disk ''../datasets/era5_atmos/IVT_sfc.nc'' = Some i
      \<and> disk ''../datasets/era5_atmos/precip_sfc.nc'' = Some p
      \<and> disk ''../datasets/era5_atmos/temp_700.nc'' = Some t
      \<and> disk ''../datasets/era5_atmos/uwnd_700.nc'' = Some u
      \<and> disk ''../datasets/era5_atmos/vwnd_700.nc'' = Some v
      \<and> disk ''../datasets/era5_atmos/hgt_500.nc'' = Some h
      \<and> converted (\<lambda>x. fmul x 1000) p (precip e)
      \<and> converted (\<lambda>x. fsub x 273.15) t (temp700 e)
      \<and> converted (\<lambda>x. fdiv x 9.81) h (hgt500 e)
      \<and> IVT e = i \<and> uwinds700 e = u \<and> vwinds700 e = v"
  using assms unfolding load_era5_Inr
  by (auto simp: ds_mul_def ds_sub_def ds_div_def converted_map_data)


theorem unit_conversion_witness:
  "\<exists>e. load_era5 era5_files = Inr e
     \<and> IVT e = january_2017
     \<and> uwinds700 e = sample_field ''uwnd'' 5
     \<and> vwinds700 e = sample_field ''vwnd'' (- 3)
     \<and> snd (data_vars (precip e) ! 0) ! 0 = [[Val 2, NaN], [Val 2, Val 4]]
     \<and> snd (data_vars (temp700 e) ! 0) ! 0 = [[Val (- 3.15), NaN], [Val (- 3.15), Val 266.85]]
     \<and> snd (data_vars (hgt500 e) ! 0) ! 0 = [[Val 5000, NaN], [Val 5000, Val 10000]]"
proof -
  define e where "e = \<lparr>IVT = january_2017, precip = ds_mul (sample_field ''precip'' 0.002) 1000,
     temp700 = ds_sub (sample_field ''temp'' 270) 273.15,
     uwinds700 = sample_field ''uwnd'' 5, vwinds700 = sample_field ''vwnd'' (- 3),
     hgt500 = ds_div (sample_field ''hgt'' 49050) 9.81\<rparr>"
  have l: "load_era5 era5_files = Inr e"
    by (simp add: load_era5_def era5_files_def open_dataset_def and_then_def e_def)
  have "snd (data_vars (precip e) ! 0) ! 0 = [[Val 2, NaN], [Val 2, Val 4]]"
    "snd (data_vars (temp700 e) ! 0) ! 0 = [[Val (- 3.15), NaN], [Val (- 3.15), Val 266.85]]"
    "snd (data_vars (hgt500 e) ! 0) ! 0 = [[Val 5000, NaN], [Val 5000, Val 10000]]"
    by (simp_all add: e_def ds_mul_def ds_sub_def ds_div_def map_data_def sample_field_def)
  with unit_conversion [OF l] l show ?thesis
    by (auto simp: era5_files_def)
qed

lemma py_slice_map: "py_slice lo hi (map f xs) = map f (py_slice lo hi xs)"
  by (simp add: py_slice_def take_map drop_map)

lemma sel_map_data:
  "sel_time_slice (map_data f ds) a b = map_sum id (map_data f) (sel_time_slice ds a b)"
  by (simp add: sel_time_slice_def map_data_def Let_def py_slice_map case_prod_unfold comp_def)

text \<open>
  C10. The conversions of the loading cell change data variables only: the converted
  precipitation, temperature and geopotential datasets have the time, latitude and
  longitude axes of their files, so selecting a range of days from a converted dataset
  is the conversion of the selection from the file's dataset (and fails when that
  fails).
\<close>

theorem conversion_keeps_coordinates:
  assumes "load_era5 disk = Inr e"
  shows "\<exists>p t h.
        disk ''../datasets/era5_atmos/precip_sfc.nc'' = Some p
      \<and> disk ''../datasets/era5_atmos/temp_700.nc'' = Some t
      \<and> disk ''../datasets/era5_atmos/hgt_500.nc'' = Some h
      \<and> time (precip e) = time p \<and> latitude (precip e) = latitude p
      \<and> longitude (precip e) = longitude p
      \<and> time (temp700 e) = time t \<and> latitude (temp700 e) = latitude t
      \<and> longitude (temp700 e) = longitude t
      \<and> time (hgt500 e) = time h \<and> latitude (hgt500 e) = latitude h
      \<and> longitude (hgt500 e) = longitude h
      \<and> sel_time_slice (precip e) a b = map_sum id (\<lambda>d. ds_mul d 1000) (sel_time_slice p a b)
      \<and> sel_time_slice (temp700 e) a b = map_sum id (\<lambda>d. ds_sub d 273.15) (sel_time_slice t a b)
      \<and> sel_time_slice (hgt500 e) a b = map_sum id (\<lambda>d. ds_div d 9.81) (sel_time_slice h a b)"
proof -
  from assms obtain i p t u v h where
    files: "disk ''../datasets/era5_atmos/precip_sfc.nc'' = Some p"
      "disk ''../datasets/era5_atmos/temp_700.nc'' = Some t"
      "disk ''../datasets/era5_atmos/hgt_500.nc'' = Some h"
    and e: "e = \<lparr>IVT = i, precip = ds_mul p 1000, temp700 = ds_sub t 273.15,
              uwinds700 = u, vwinds700 = v, hgt500 = ds_div h 9.81\<rparr>"
    unfolding load_era5_Inr by blast
  have "sel_time_slice (ds_mul p 1000) a b = map_sum id (\<lambda>d. ds_mul d 1000) (sel_time_slice p a b)"
    "sel_time_slice (ds_sub t 273.15) a b = map_sum id (\<lambda>d. ds_sub d 273.15) (sel_time_slice t a b)"
    "sel_time_slice (ds_div h 9.81) a b = map_sum id (\<lambda>d. ds_div d 9.81) (sel_time_slice h a b)"
    unfolding ds_mul_def ds_sub_def ds_div_def by (rule sel_map_data)+
  with files show ?thesis
    by (simp add: e ds_mul_def ds_sub_def ds_div_def map_data_coords)
qed

theorem conversion_keeps_coordinates_witness:
  "\<exists>e. load_era5 era5_files = Inr e
     \<and> time (precip e) = time january_2017 \<and> latitude (precip e) = [41, 40]
     \<and> longitude (precip e) = [- 112, - 111]
     \<and> time (temp700 e) = time january_2017 \<and> time (hgt500 e) = time january_2017
     \<and> sel_time_slice (precip e) 17173 17178
         = map_sum id (\<lambda>d. ds_mul d 1000)
             (sel_time_slice (sample_field ''precip'' 0.002) 17173 17178)"
proof -
  define e where "e = \<lparr>IVT = january_2017, precip = ds_mul (sample_field ''precip'' 0.002) 1000,
     temp700 = ds_sub (sample_field ''temp'' 270) 273.15,
     uwinds700 = sample_field ''uwnd'' 5, vwinds700 = sample_field ''vwnd'' (- 3),
     hgt500 = ds_div (sample_field ''hgt'' 49050) 9.81\<rparr>"
  have l: "load_era5 era5_files = Inr e"
    by (simp add: load_era5_def era5_files_def open_dataset_def and_then_def e_def)
  have t: "time (sample_field n v) = time january_2017"
    "latitude (sample_field n v) = [41, 40]" "longitude (sample_field n v) = [- 112, - 111]" for n v
    by (simp_all add: sample_field_def january_2017_def)
  from conversion_keeps_coordinates [OF l, of 17173 17178] l show ?thesis
    by (auto simp: era5_files_def t)
qed

section \<open>Boolean selection and the median\<close>

lemma map_filter_as_concat:
  "map f (filter P xs) = concat (map (\<lambda>x. if P x then [f x] else []) xs)"
  by (induction xs) auto

lemma zip_as_map_nth:
  "length ys = length xs \<Longrightarrow> zip xs ys = map (\<lambda>j. (xs ! j, ys ! j)) [0..<length xs]"
  by (rule nth_equalityI) auto

lemma row_select:
  assumes "length mrow = length row"
  shows "map fst (filter snd (zip row mrow))
         = concat (map (\<lambda>j. if mrow ! j then [row ! j] else []) [0..<length row])"
  by (simp add: zip_as_map_nth [OF assms] map_filter_as_concat comp_def cong: if_cong)

lemma zip_concat:
  "length a = length m \<Longrightarrow> \<forall>i < length a. length (a ! i) = length (m ! i) \<Longrightarrow>
   zip (concat a) (concat m) = concat (map2 zip a m)"
proof (induction a m rule: list_induct2)
  case Nil
  then show ?case by simp
next
  case (Cons x xs y ys)
  from Cons.prems have "length x = length y" by fastforce
  moreover from Cons.prems have "\<forall>i < length xs. length (xs ! i) = length (ys ! i)" by fastforce
  ultimately show ?case using Cons.IH by simp
qed

lemma rect_lengths:
  assumes "rect a" and "rect m" and "shape m = shape a"
  shows "length m = length a" and "\<forall>i < length a. length (m ! i) = length (a ! i)"
proof -
  show len: "length m = length a"
    using assms(3) by (simp add: shape_def)
  show "\<forall>i < length a. length (m ! i) = length (a ! i)"
    using assms len by (auto simp: rect_def list_all_length)
qed

lemma bool_index_cells:
  assumes "rect a" and "rect m" and "shape m = shape a"
  shows "bool_index a m = Inr (cells_at a m)"
proof -
  note l = rect_lengths [OF assms]
  have z: "zip (concat a) (concat m) = concat (map2 zip a m)"
    using l by (intro zip_concat) auto
  have "map2 (\<lambda>row mrow. map fst (filter snd (zip row mrow))) a m
        = map (\<lambda>i. concat (map (\<lambda>j. if m ! i ! j then [a ! i ! j] else []) [0..<length (a ! i)]))
            [0..<length a]"
    using l by (intro nth_equalityI) (auto simp: row_select cong: if_cong)
  then have "map fst (filter snd (concat (map2 zip a m))) = cells_at a m"
    by (simp add: cells_at_def filter_concat map_concat comp_def case_prod_unfold)
  with z assms(3) show ?thesis
    by (simp add: bool_index_def)
qed


lemma filter_length_mono:
  "(\<And>x. x \<in> set xs \<Longrightarrow> P x \<Longrightarrow> Q x) \<Longrightarrow> length (filter P xs) \<le> length (filter Q xs)"
  by (induction xs) auto

lemma count_le_sorted:
  fixes s :: "real list"
  assumes "sorted s" and "i < length s" and "s ! i \<le> m"
  shows "Suc i \<le> length (filter (\<lambda>x. x \<le> m) s)"
proof -
  have "\<forall>x \<in> set (take (Suc i) s). x \<le> m"
  proof
    fix x assume "x \<in> set (take (Suc i) s)"
    then obtain k where "k < Suc i" and "k < length s" and "x = s ! k"
      by (auto simp: in_set_conv_nth)
    with assms(1,2) have "x \<le> s ! i"
      by (auto intro: sorted_nth_mono)
    with assms(3) show "x \<le> m" by simp
  qed
  then have "filter (\<lambda>x. x \<le> m) (take (Suc i) s) = take (Suc i) s"
    by (simp add: filter_id_conv)
  moreover have "filter (\<lambda>x. x \<le> m) s
      = filter (\<lambda>x. x \<le> m) (take (Suc i) s) @ filter (\<lambda>x. x \<le> m) (drop (Suc i) s)"
    by (simp flip: filter_append)
  ultimately have "length (filter (\<lambda>x. x \<le> m) s) \<ge> length (take (Suc i) s)"
    by simp
  with assms(2) show ?thesis by simp
qed

lemma count_less_sorted:
  fixes s :: "real list"
  assumes "sorted s" and "i < length s"
  shows "length (filter (\<lambda>x. x < s ! i) s) \<le> i"
proof -
  have "\<forall>x \<in> set (drop i s). \<not> x < s ! i"
  proof
    fix x assume "x \<in> set (drop i s)"
    then obtain k where "k < length s - i" and "x = s ! (i + k)"
      by (auto simp: in_set_conv_nth)
    with assms have "s ! i \<le> x"
      by (auto intro: sorted_nth_mono)
    then show "\<not> x < s ! i" by simp
  qed
  then have "filter (\<lambda>x. x < s ! i) (drop i s) = []"
    by (simp add: filter_empty_conv)
  moreover have "filter (\<lambda>x. x < s ! i) s
      = filter (\<lambda>x. x < s ! i) (take i s) @ filter (\<lambda>x. x < s ! i) (drop i s)"
    by (simp flip: filter_append)
  ultimately have "length (filter (\<lambda>x. x < s ! i) s) = length (filter (\<lambda>x. x < s ! i) (take i s))"
    by simp
  also have "\<dots> \<le> length (take i s)"
    by (rule length_filter_le)
  finally show ?thesis by simp
qed

lemma sorted_nth_kth_smallest:
  fixes s :: "real list"
  assumes "sorted s" and "k < length s"
  shows "kth_smallest (s ! k) k s"
  using count_less_sorted [OF assms] count_le_sorted [OF assms, of "s ! k"]
  by (simp add: kth_smallest_def)

lemma kth_smallest_sort: "kth_smallest x k (sort rs) \<longleftrightarrow> kth_smallest x k rs"
  by (simp add: kth_smallest_def filter_sort)

lemma kth_smallest_unique:
  assumes "kth_smallest x k rs" and "kth_smallest y k rs"
  shows "x = y"
proof -
  have False if "kth_smallest u k rs" and "kth_smallest w k rs" and "u < w" for u w
  proof -
    have "length (filter (\<lambda>z. z \<le> u) rs) \<le> length (filter (\<lambda>z. z < w) rs)"
      using that(3) by (intro filter_length_mono) simp
    with that(1,2) show False
      by (simp add: kth_smallest_def)
  qed
  from this [of x y] this [of y x] assms show ?thesis
    by (cases x y rule: linorder_cases) auto
qed

lemma is_median_unique:
  assumes "is_median m rs" and "is_median m' rs"
  shows "m = m'"
proof -
  from assms(1) obtain lo hi where a: "kth_smallest lo ((length rs - 1) div 2) rs"
    "kth_smallest hi (length rs div 2) rs" "m = (lo + hi) / 2"
    by (auto simp: is_median_def)
  from assms(2) obtain lo' hi' where b: "kth_smallest lo' ((length rs - 1) div 2) rs"
    "kth_smallest hi' (length rs div 2) rs" "m' = (lo' + hi') / 2"
    by (auto simp: is_median_def)
  from a(1) b(1) have "lo = lo'" by (rule kth_smallest_unique)
  moreover from a(2) b(2) have "hi = hi'" by (rule kth_smallest_unique)
  ultimately show ?thesis using a(3) b(3) by simp
qed

lemma np_median_is_median:
  assumes "finite_vals xs = Some rs" and "rs \<noteq> []"
  shows "\<exists>m. np_median xs = Val m \<and> is_median m rs"
proof -
  define s where "s = sort rs"
  define n where "n = length s"
  have srt: "sorted s" and n: "n = length rs" "0 < n" and st: "set s = set rs"
    using assms(2) by (simp_all add: s_def n_def)
  have unfold: "np_median xs =
      (if odd n then Val (s ! (n div 2)) else Val ((s ! (n div 2 - 1) + s ! (n div 2)) / 2))"
  proof -
    have "sort rs \<noteq> []"
      using assms(2) by (metis length_0_conv length_sort)
    with assms(1) show ?thesis
      by (simp add: np_median_def Let_def s_def n_def)
  qed
  have kth: "kth_smallest (s ! k) k rs \<and> s ! k \<in> set rs" if "k < n" for k
  proof -
    from that have "kth_smallest (s ! k) k s"
      using srt by (intro sorted_nth_kth_smallest) (simp_all add: n_def)
    moreover from that have "s ! k \<in> set s"
      by (simp add: n_def)
    ultimately show ?thesis
      by (simp add: s_def kth_smallest_sort)
  qed
  show ?thesis
  proof (cases "odd n")
    case True
    then obtain k where k: "n = 2 * k + 1" by (auto elim: oddE)
    have m: "np_median xs = Val (s ! k)"
      using True k by (simp add: unfold)
    have ix: "(length rs - 1) div 2 = k" "length rs div 2 = k"
      using k n(1) by simp_all
    from kth [of k] k have "is_median (s ! k) rs"
      unfolding is_median_def ix by (intro bexI [of _ "s ! k"]) simp_all
    with m show ?thesis by simp
  next
    case False
    with n obtain k where k: "n = 2 * k" "0 < k" by (auto elim: evenE)
    have med: "np_median xs = Val ((s ! (k - 1) + s ! k) / 2)"
      using False k by (simp add: unfold)
    from k(2) obtain j where j: "k = Suc j"
      by (cases k) simp_all
    have ix: "(length rs - 1) div 2 = k - 1" "length rs div 2 = k"
      using k(1) n(1) j by simp_all
    from kth [of "k - 1"] kth [of k] k have "is_median ((s ! (k - 1) + s ! k) / 2) rs"
      unfolding is_median_def ix
      by (intro bexI [of _ "s ! (k - 1)"] bexI [of _ "s ! k"]) simp_all
    with med show ?thesis by blast
  qed
qed

lemma np_median_empty: "np_median [] = NaN"
  by (simp add: np_median_def)

section \<open>The overview map and its label\<close>

lemma and_then_Inl: "and_then r f = Inl e \<longleftrightarrow> r = Inl e \<or> (\<exists>x. r = Inr x \<and> f x = Inl e)"
  by (cases r) (auto simp: and_then_def)

lemma draw_Inr: "draw lib c = Inr c' \<longleftrightarrow> lib c = None \<and> c' = c"
  by (auto simp: draw_def split: option.splits)

lemma overview_map_unfold:
  "overview_map lib v s =
     (case and_then (draw lib (Pcolormesh (astype_float ((heap s @ [FloatArr (flat_to_nan (astype_float (heap s ! orientation v)))]) ! lons v))
                                (astype_float ((heap s @ [FloatArr (flat_to_nan (astype_float (heap s ! orientation v)))]) ! lats v))
                                (flat_to_nan (astype_float (heap s ! orientation v))))) (\<lambda>mesh.
           and_then (facet_centroid (heap s @ [FloatArr (flat_to_nan (astype_float (heap s ! orientation v)))]) v 2131) (\<lambda>(x, y).
           and_then (draw lib (Text x y ''2131'')) (\<lambda>label. Inr [mesh, label]))) of
        Inl e \<Rightarrow> (s\<lparr>heap := heap s @ [FloatArr (flat_to_nan (astype_float (heap s ! orientation v)))]\<rparr>, Some e)
      | Inr img \<Rightarrow>
          (s\<lparr>heap := heap s @ [FloatArr (flat_to_nan (astype_float (heap s ! orientation v)))],
             figures := (figures s)(''../figures/facet_orientations.png'' \<mapsto> img)\<rparr>, None))"
  by (simp add: overview_map_def alloc_def flat_to_nan_inplace_def)

lemma overview_heap:
  "heap (fst (overview_map lib v s)) = heap s @ [FloatArr (flat_to_nan (astype_float (heap s ! orientation v)))]"
  by (simp add: overview_map_unfold split: sum.splits)

lemma facet_centroid_append:
  assumes "valid_refs v h"
  shows "facet_centroid (h @ ext) v F = facet_centroid h v F"
  using assms by (simp add: facet_centroid_def valid_refs_def nth_append)

lemma shape_map: "shape (map (map f) g) = shape g"
  by (cases g) (simp_all add: shape_def)

lemma eq_int_shape: "shape (eq_int a F) = arr_shape a"
  by (cases a) (simp_all add: shape_map eq_scalar_def)

lemma astype_float_shape: "shape (astype_float a) = arr_shape a"
  by (cases a) (simp_all add: shape_map)

lemma load_sample:
  "load_facets sample_csv sample_tables [] = Inr (sample_vars, sample_heap)"
  by (simp add: load_facets_def read_csv_array_def sample_csv_def sample_tables_def and_then_def
        alloc_def sample_vars_def sample_heap_def)

lemma read_csv_array_Inr:
  "read_csv_array disk p h = Inr (h', a) \<longleftrightarrow> (\<exists>arr. disk p = Some arr \<and> h' = h @ [arr] \<and> a = length h)"
  by (auto simp: read_csv_array_def alloc_def split: option.splits)

lemma load_facets_Inr:
  assumes "load_facets disk tables h0 = Inr (v, h)"
  shows "\<exists>a0 a1 a2 a3 a4 t.
      disk ''../datasets/facets_and_opgs/elevation.csv'' = Some a0
    \<and> disk ''../datasets/facets_and_opgs/facet_labels.csv'' = Some a1
    \<and> disk ''../datasets/facets_and_opgs/lats.csv'' = Some a2
    \<and> disk ''../datasets/facets_and_opgs/lons.csv'' = Some a3
    \<and> disk ''../datasets/facets_and_opgs/facet_orientation.csv'' = Some a4
    \<and> tables ''../datasets/facets_and_opgs/winter_northernUT_opg.csv'' = Some t
    \<and> h = h0 @ [a0, a1, a2, a3, a4]
    \<and> v = \<lparr>elev = length h0, facets = length h0 + 1, lats = length h0 + 2,
            lons = length h0 + 3, orientation = length h0 + 4, opg = t\<rparr>"
  using assms
  by (simp add: load_facets_def read_csv_array_def and_then_def alloc_def split: option.splits) auto

lemma load_facets_valid:
  assumes "load_facets disk tables h0 = Inr (v, h)"
  shows "valid_refs v h"
    and "distinct [elev v, facets v, lats v, lons v, orientation v]"
    and "disk ''../datasets/facets_and_opgs/elevation.csv'' = Some (h ! elev v)"
    and "disk ''../datasets/facets_and_opgs/facet_labels.csv'' = Some (h ! facets v)"
    and "disk ''../datasets/facets_and_opgs/lats.csv'' = Some (h ! lats v)"
    and "disk ''../datasets/facets_and_opgs/lons.csv'' = Some (h ! lons v)"
    and "disk ''../datasets/facets_and_opgs/facet_orientation.csv'' = Some (h ! orientation v)"
    and "\<forall>p < length h0. h ! p = h0 ! p"
  using load_facets_Inr [OF assms]
  by (auto simp: valid_refs_def nth_append)

lemma rect_map: "rect (map (map f) g) \<longleftrightarrow> rect g"
  by (simp add: rect_def list_all_iff shape_map)

lemma arr_rect_views:
  assumes "arr_rect a"
  shows "rect (astype_float a)" and "rect (eq_int a F)"
  using assms by (cases a; simp add: rect_map eq_scalar_def)+

lemma concat_same_length:
  "length a = length m \<Longrightarrow> \<forall>i < length a. length (a ! i) = length (m ! i) \<Longrightarrow>
   length (concat a) = length (concat m)"
proof (induction a m rule: list_induct2)
  case Nil
  then show ?case by simp
next
  case (Cons x xs y ys)
  from Cons.prems have "length x = length y" by fastforce
  moreover from Cons.prems have "\<forall>i < length xs. length (xs ! i) = length (ys ! i)" by fastforce
  ultimately show ?case using Cons.IH by simp
qed


lemma cells_at_flat:
  fixes a :: "float64 list list"
  assumes "rect a" and "rect m" and "shape m = shape a"
  shows "cells_at a m = map fst (filter snd (zip (concat a) (concat m)))"
    and "length (concat a) = length (concat m)"
proof -
  from bool_index_cells [OF assms] assms(3)
  show "cells_at a m = map fst (filter snd (zip (concat a) (concat m)))"
    by (simp add: bool_index_def)
  note l = rect_lengths [OF assms]
  show "length (concat a) = length (concat m)"
    using l by (intro concat_same_length) auto
qed

lemma cells_at_empty_iff:
  fixes a :: "float64 list list"
  assumes "rect a" and "rect m" and "shape m = shape a"
  shows "cells_at a m = [] \<longleftrightarrow> True \<notin> set (concat m)"
proof -
  note f = cells_at_flat [OF assms]
  have "(\<exists>p \<in> set (zip (concat a) (concat m)). snd p) \<longleftrightarrow> True \<in> set (concat m)"
  proof
    assume "\<exists>p \<in> set (zip (concat a) (concat m)). snd p"
    then show "True \<in> set (concat m)"
      by (auto dest: set_zip_rightD)
  next
    assume "True \<in> set (concat m)"
    then obtain k where "k < length (concat m)" and "concat m ! k"
      by (metis in_set_conv_nth)
    with f(2) have "(concat a ! k, True) \<in> set (zip (concat a) (concat m))"
      by (auto simp: set_zip)
    then show "\<exists>p \<in> set (zip (concat a) (concat m)). snd p"
      by force
  qed
  then show ?thesis
    by (auto simp: f(1) filter_empty_conv)
qed

lemma facet_centroid_cells:
  assumes "arr_rect (h ! lons v)" and "arr_rect (h ! lats v)" and "arr_rect (h ! facets v)"
    and "arr_shape (h ! lons v) = arr_shape (h ! facets v)"
    and "arr_shape (h ! lats v) = arr_shape (h ! facets v)"
  shows "facet_centroid h v F =
     Inr (np_median (cells_at (astype_float (h ! lons v)) (eq_int (h ! facets v) F)),
          np_median (cells_at (astype_float (h ! lats v)) (eq_int (h ! facets v) F)))"
  using assms
  by (simp add: facet_centroid_def and_then_def bool_index_cells arr_rect_views
        eq_int_shape astype_float_shape)

lemma facet_centroid_mismatch:
  assumes "arr_shape (h ! lons v) \<noteq> arr_shape (h ! facets v)
           \<or> arr_shape (h ! lats v) \<noteq> arr_shape (h ! facets v)"
  shows "facet_centroid h v F = Inl IndexError"
  using assms
  by (auto simp: facet_centroid_def and_then_def bool_index_def eq_int_shape astype_float_shape
        split: sum.splits)

lemma finite_vals_length: "finite_vals xs = Some rs \<Longrightarrow> length rs = length xs"
  by (induction xs arbitrary: rs rule: finite_vals.induct) auto


lemma finite_vals_nonempty: "finite_vals xs = Some rs \<Longrightarrow> xs \<noteq> [] \<Longrightarrow> rs \<noteq> []"
  by (drule finite_vals_length) auto

lemma sample_centroid:
  "facet_centroid sample_heap sample_vars 2131 = Inr (Val (- 112), Val 40)"
  by (simp add: facet_centroid_def sample_heap_def sample_vars_def bool_index_def shape_def
        eq_scalar_def and_then_def np_median_def)

lemma sample_overview:
  "overview_map (\<lambda>_. None) sample_vars sample_session =
     (\<lparr>heap = sample_heap @ [FloatArr [[NaN, Val 3], [Val 1, NaN]]],
       figures = (\<lambda>_. None)(''../figures/facet_orientations.png'' \<mapsto>
          [Pcolormesh [[Val (- 112), Val (- 111)], [Val (- 112), Val (- 111)]]
                      [[Val 41, Val 41], [Val 40, Val 40]]
                      [[NaN, Val 3], [Val 1, NaN]],
           Text (Val (- 112)) (Val 40) ''2131''])\<rparr>, None)"
  by (simp add: overview_map_def alloc_def flat_to_nan_inplace_def flat_to_nan_cells
        facet_centroid_def bool_index_def shape_def eq_scalar_def and_then_def draw_def
        np_median_def sample_session_def sample_heap_def sample_vars_def)

lemma paired_heap:
  "heap paired_session =
     [FloatArr [[Val 1500, Val 1600], [Val 1700, Val 1800]],
      IntArr [[2131, 17], [17, 2131]],
      FloatArr [[Val 41, Val 41], [Val 40, Val 40]],
      FloatArr [[Val (- 112), Val (- 111)], [Val (- 112), Val (- 111)]],
      IntArr [[9, 3], [1, 9]]]"
  by (simp add: paired_session_def sample_heap_def)

lemma paired_overview:
  "figures (fst (overview_map (\<lambda>_. None) sample_vars paired_session))
       ''../figures/facet_orientations.png''
     = Some [Pcolormesh [[Val (- 112), Val (- 111)], [Val (- 112), Val (- 111)]]
                      [[Val 41, Val 41], [Val 40, Val 40]]
                      [[NaN, Val 3], [Val 1, NaN]],
             Text (Val (- 223 / 2)) (Val (81 / 2)) ''2131'']
   \<and> snd (overview_map (\<lambda>_. None) sample_vars paired_session) = None"
  by (simp add: overview_map_def alloc_def flat_to_nan_inplace_def flat_to_nan_cells
        facet_centroid_def bool_index_def shape_def eq_scalar_def and_then_def draw_def
        np_median_def paired_heap sample_vars_def)

text \<open>
  C4. For every facet id \<open>F\<close> that occurs at least once in the facet-id grid (grids of
  one shape, finite coordinates), the centroid computation yields the pair of the median
  of the longitudes and the median of the latitudes at the cells where the facet id is
  \<open>F\<close>, the median being the mean of the two middle values (one value, when the count is
  odd) and no other number; the overview map is drawn for \<open>F = 2131\<close>, and when its cell
  completes, the label of the image it saved stands at that pair.
\<close>

theorem centroid_label:
  assumes refs: "valid_refs v (heap s)"
    and rct: "arr_rect (heap s ! lons v)" "arr_rect (heap s ! lats v)" "arr_rect (heap s ! facets v)"
    and shp: "arr_shape (heap s ! lons v) = arr_shape (heap s ! facets v)"
             "arr_shape (heap s ! lats v) = arr_shape (heap s ! facets v)"
    and occurs: "True \<in> set (concat (eq_int (heap s ! facets v) F))"
    and fin: "finite_vals (cells_at (astype_float (heap s ! lons v)) (eq_int (heap s ! facets v) F)) = Some xs"
             "finite_vals (cells_at (astype_float (heap s ! lats v)) (eq_int (heap s ! facets v) F)) = Some ys"
  shows "\<exists>mx my. facet_centroid (heap s) v F = Inr (Val mx, Val my)
           \<and> is_median mx xs \<and> is_median my ys
           \<and> (\<forall>m. is_median m xs \<longrightarrow> m = mx) \<and> (\<forall>m. is_median m ys \<longrightarrow> m = my)
           \<and> (F = 2131 \<longrightarrow> overview_map lib v s = (s', None) \<longrightarrow>
                (\<exists>mesh. figures s' ''../figures/facet_orientations.png''
                   = Some [mesh, Text (Val mx) (Val my) ''2131'']))"
proof -
  let ?m = "eq_int (heap s ! facets v) F"
  let ?lo = "cells_at (astype_float (heap s ! lons v)) ?m"
  let ?la = "cells_at (astype_float (heap s ! lats v)) ?m"
  have c: "facet_centroid (heap s) v F = Inr (np_median ?lo, np_median ?la)"
    using rct shp by (rule facet_centroid_cells)
  have "?lo \<noteq> []" "?la \<noteq> []"
    using occurs rct shp
    by (simp_all add: cells_at_empty_iff arr_rect_views eq_int_shape astype_float_shape)
  with fin have "xs \<noteq> []" "ys \<noteq> []"
    by (auto dest: finite_vals_nonempty)
  with fin obtain mx my where
    mx: "np_median ?lo = Val mx" "is_median mx xs" and my: "np_median ?la = Val my" "is_median my ys"
    using np_median_is_median by blast
  have ux: "m = mx" if "is_median m xs" for m
    using that mx(2) by (rule is_median_unique)
  have uy: "m = my" if "is_median m ys" for m
    using that my(2) by (rule is_median_unique)
  have lbl: "\<exists>mesh. figures s' ''../figures/facet_orientations.png'' = Some [mesh, Text (Val mx) (Val my) ''2131'']"
    if "F = 2131" and run: "overview_map lib v s = (s', None)"
  proof -
    have "facet_centroid (heap s @ [FloatArr (flat_to_nan (astype_float (heap s ! orientation v)))]) v 2131
        = Inr (Val mx, Val my)"
      using c mx my that(1) by (simp add: facet_centroid_append [OF refs])
    with run show ?thesis
      by (auto simp: overview_map_unfold and_then_def draw_def split: sum.splits option.splits)
  qed
  from c mx(1) my(1) have "facet_centroid (heap s) v F = Inr (Val mx, Val my)"
    by simp
  with mx(2) my(2) ux uy lbl show ?thesis
    by blast
qed

text \<open>
  Two grids: facet 2131 on three cells, where the label stands at the middle value
  (-112, 40), and on two cells, where it stands at the mean of the two values
  (-111.5, 40.5) and at neither of them.
\<close>

theorem centroid_label_witness:
  "facet_centroid sample_heap sample_vars 2131 = Inr (Val (- 112), Val 40)
   \<and> is_median (- 112) [- 112, - 112, - 111] \<and> is_median 40 [41, 40, 40]
   \<and> figures (fst (overview_map (\<lambda>_. None) sample_vars sample_session))
         ''../figures/facet_orientations.png''
       = Some [Pcolormesh [[Val (- 112), Val (- 111)], [Val (- 112), Val (- 111)]]
                      [[Val 41, Val 41], [Val 40, Val 40]]
                      [[NaN, Val 3], [Val 1, NaN]],
               Text (Val (- 112)) (Val 40) ''2131'']
   \<and> facet_centroid (heap paired_session) sample_vars 2131 = Inr (Val (- 223 / 2), Val (81 / 2))
   \<and> is_median (- 223 / 2) [- 112, - 111] \<and> is_median (81 / 2) [41, 40]
   \<and> \<not> is_median (- 112) [- 112, - 111] \<and> \<not> is_median (- 111) [- 112, - 111]
   \<and> figures (fst (overview_map (\<lambda>_. None) sample_vars paired_session))
         ''../figures/facet_orientations.png''
       = Some [Pcolormesh [[Val (- 112), Val (- 111)], [Val (- 112), Val (- 111)]]
                      [[Val 41, Val 41], [Val 40, Val 40]]
                      [[NaN, Val 3], [Val 1, NaN]],
               Text (Val (- 223 / 2)) (Val (81 / 2)) ''2131'']"
proof -
  have refs: "valid_refs sample_vars (heap sample_session)"
    by (simp add: valid_refs_def sample_vars_def sample_session_def sample_heap_def)
  have rct: "arr_rect (heap sample_session ! lons sample_vars)"
    "arr_rect (heap sample_session ! lats sample_vars)"
    "arr_rect (heap sample_session ! facets sample_vars)"
    by (simp_all add: sample_vars_def sample_session_def sample_heap_def rect_def shape_def)
  have shp: "arr_shape (heap sample_session ! lons sample_vars) = arr_shape (heap sample_session ! facets sample_vars)"
    "arr_shape (heap sample_session ! lats sample_vars) = arr_shape (heap sample_session ! facets sample_vars)"
    by (simp_all add: sample_vars_def sample_session_def sample_heap_def shape_def)
  have occ: "True \<in> set (concat (eq_int (heap sample_session ! facets sample_vars) 2131))"
    by (simp add: sample_vars_def sample_session_def sample_heap_def)
  have fin: "finite_vals (cells_at (astype_float (heap sample_session ! lons sample_vars))
               (eq_int (heap sample_session ! facets sample_vars) 2131)) = Some [- 112, - 112, - 111]"
    "finite_vals (cells_at (astype_float (heap sample_session ! lats sample_vars))
               (eq_int (heap sample_session ! facets sample_vars) 2131)) = Some [41, 40, 40]"
    by (simp_all add: sample_vars_def sample_session_def sample_heap_def cells_at_def)
  note c = centroid_label [where lib = "\<lambda>_. None"
      and s' = "fst (overview_map (\<lambda>_. None) sample_vars sample_session)", OF refs rct shp occ fin]
  have hs: "heap sample_session = sample_heap"
    by (simp add: sample_session_def)
  from c have odd_count: "facet_centroid sample_heap sample_vars 2131 = Inr (Val (- 112), Val 40)
     \<and> is_median (- 112) [- 112, - 112, - 111] \<and> is_median 40 [41, 40, 40]"
    by (auto simp: sample_centroid hs)
  have refs2: "valid_refs sample_vars (heap paired_session)"
    by (simp add: valid_refs_def sample_vars_def paired_heap)
  have rct2: "arr_rect (heap paired_session ! lons sample_vars)"
    "arr_rect (heap paired_session ! lats sample_vars)"
    "arr_rect (heap paired_session ! facets sample_vars)"
    by (simp_all add: sample_vars_def paired_heap rect_def shape_def)
  have shp2: "arr_shape (heap paired_session ! lons sample_vars) = arr_shape (heap paired_session ! facets sample_vars)"
    "arr_shape (heap paired_session ! lats sample_vars) = arr_shape (heap paired_session ! facets sample_vars)"
    by (simp_all add: sample_vars_def paired_heap shape_def)
  have occ2: "True \<in> set (concat (eq_int (heap paired_session ! facets sample_vars) 2131))"
    by (simp add: sample_vars_def paired_heap)
  have fin2: "finite_vals (cells_at (astype_float (heap paired_session ! lons sample_vars))
               (eq_int (heap paired_session ! facets sample_vars) 2131)) = Some [- 112, - 111]"
    "finite_vals (cells_at (astype_float (heap paired_session ! lats sample_vars))
               (eq_int (heap paired_session ! facets sample_vars) 2131)) = Some [41, 40]"
    by (simp_all add: sample_vars_def paired_heap cells_at_def)
  have pc: "facet_centroid (heap paired_session) sample_vars 2131 = Inr (Val (- 223 / 2), Val (81 / 2))"
    by (simp add: facet_centroid_def paired_heap sample_vars_def bool_index_def shape_def
          eq_scalar_def and_then_def np_median_def)
  from centroid_label [where lib = "\<lambda>_. None"
      and s' = "fst (overview_map (\<lambda>_. None) sample_vars paired_session)", OF refs2 rct2 shp2 occ2 fin2]
  obtain mx my where p: "facet_centroid (heap paired_session) sample_vars 2131 = Inr (Val mx, Val my)"
    "is_median mx [- 112, - 111]" "is_median my [41, 40]"
    "\<forall>m. is_median m [- 112, - 111] \<longrightarrow> m = mx"
    by blast
  from p(1) pc have m: "mx = - 223 / 2" "my = 81 / 2"
    by simp_all
  from p(4) have "\<not> is_median (- 112) [- 112, - 111]" "\<not> is_median (- 111) [- 112, - 111]"
    unfolding m by auto
  with p(2,3) pc have even_count: "facet_centroid (heap paired_session) sample_vars 2131 = Inr (Val (- 223 / 2), Val (81 / 2))
     \<and> is_median (- 223 / 2) [- 112, - 111] \<and> is_median (81 / 2) [41, 40]
     \<and> \<not> is_median (- 112) [- 112, - 111] \<and> \<not> is_median (- 111) [- 112, - 111]"
    unfolding m by simp
  from odd_count even_count show ?thesis
    by (simp add: sample_overview paired_overview)
qed


text \<open>
  C7, as amended. When no cell of the facet-id grid holds 2131 (grids of one shape),
  nothing catches or checks it: the centroid computation yields not-a-number for both
  coordinates and raises nothing, and when the plotting library draws the mesh and a
  label at that position, the cell completes and saves the overview image with the
  label at the undefined position.
\<close>

theorem empty_selection_label:
  assumes refs: "valid_refs v (heap s)"
    and rct: "arr_rect (heap s ! lons v)" "arr_rect (heap s ! lats v)" "arr_rect (heap s ! facets v)"
    and shp: "arr_shape (heap s ! lons v) = arr_shape (heap s ! facets v)"
             "arr_shape (heap s ! lats v) = arr_shape (heap s ! facets v)"
    and none: "True \<notin> set (concat (eq_int (heap s ! facets v) 2131))"
    and lib: "lib (Pcolormesh (astype_float (heap s ! lons v)) (astype_float (heap s ! lats v))
                     (flat_to_nan (astype_float (heap s ! orientation v)))) = None"
             "lib (Text NaN NaN ''2131'') = None"
  shows "facet_centroid (heap s) v 2131 = Inr (NaN, NaN)
     \<and> snd (overview_map lib v s) = None
     \<and> figures (fst (overview_map lib v s)) ''../figures/facet_orientations.png''
         = Some [Pcolormesh (astype_float (heap s ! lons v)) (astype_float (heap s ! lats v))
                     (flat_to_nan (astype_float (heap s ! orientation v))),
                 Text NaN NaN ''2131'']"
proof -
  let ?m = "eq_int (heap s ! facets v) 2131"
  have "cells_at (astype_float (heap s ! lons v)) ?m = []"
    "cells_at (astype_float (heap s ! lats v)) ?m = []"
    using none rct shp
    by (simp_all add: cells_at_empty_iff arr_rect_views eq_int_shape astype_float_shape)
  with facet_centroid_cells [OF rct shp, of 2131]
  have c: "facet_centroid (heap s) v 2131 = Inr (NaN, NaN)"
    by (simp add: np_median_empty)
  from refs have "lons v < length (heap s)" "lats v < length (heap s)"
    by (simp_all add: valid_refs_def)
  with c lib show ?thesis
    by (simp add: overview_map_unfold facet_centroid_append [OF refs] and_then_def draw_def nth_append)
qed

theorem empty_selection_label_witness:
  "facet_centroid (heap unlabelled_session) sample_vars 2131 = Inr (NaN, NaN)
   \<and> overview_map (\<lambda>_. None) sample_vars unlabelled_session =
     (\<lparr>heap = heap unlabelled_session @ [FloatArr [[NaN, Val 3], [Val 1, NaN]]],
       figures = (\<lambda>_. None)(''../figures/facet_orientations.png'' \<mapsto>
          [Pcolormesh [[Val (- 112), Val (- 111)], [Val (- 112), Val (- 111)]]
                      [[Val 41, Val 41], [Val 40, Val 40]]
                      [[NaN, Val 3], [Val 1, NaN]],
           Text NaN NaN ''2131''])\<rparr>, None)"
proof -
  have h: "heap unlabelled_session =
     [FloatArr [[Val 1500, Val 1600], [Val 1700, Val 1800]],
      IntArr [[17, 17], [18, 18]],
      FloatArr [[Val 41, Val 41], [Val 40, Val 40]],
      FloatArr [[Val (- 112), Val (- 111)], [Val (- 112), Val (- 111)]],
      IntArr [[9, 3], [1, 9]]]"
    by (simp add: unlabelled_session_def sample_heap_def)
  have refs: "valid_refs sample_vars (heap unlabelled_session)"
    by (simp add: valid_refs_def sample_vars_def h)
  have rct: "arr_rect (heap unlabelled_session ! lons sample_vars)"
    "arr_rect (heap unlabelled_session ! lats sample_vars)"
    "arr_rect (heap unlabelled_session ! facets sample_vars)"
    by (simp_all add: sample_vars_def h rect_def shape_def)
  have shp: "arr_shape (heap unlabelled_session ! lons sample_vars) = arr_shape (heap unlabelled_session ! facets sample_vars)"
    "arr_shape (heap unlabelled_session ! lats sample_vars) = arr_shape (heap unlabelled_session ! facets sample_vars)"
    by (simp_all add: sample_vars_def h shape_def)
  have none: "True \<notin> set (concat (eq_int (heap unlabelled_session ! facets sample_vars) 2131))"
    by (simp add: sample_vars_def h)
  have fig: "figures unlabelled_session = (\<lambda>_. None)"
    by (simp add: unlabelled_session_def)
  have views: "astype_float (heap unlabelled_session ! lons sample_vars) = [[Val (- 112), Val (- 111)], [Val (- 112), Val (- 111)]]"
    "astype_float (heap unlabelled_session ! lats sample_vars) = [[Val 41, Val 41], [Val 40, Val 40]]"
    "flat_to_nan (astype_float (heap unlabelled_session ! orientation sample_vars)) = [[NaN, Val 3], [Val 1, NaN]]"
    by (simp_all add: sample_vars_def h flat_to_nan_cells)
  from empty_selection_label [where lib = "\<lambda>_. None", OF refs rct shp none]
  have "facet_centroid (heap unlabelled_session) sample_vars 2131 = Inr (NaN, NaN)"
    and "snd (overview_map (\<lambda>_. None) sample_vars unlabelled_session) = None"
    and "figures (fst (overview_map (\<lambda>_. None) sample_vars unlabelled_session))
          ''../figures/facet_orientations.png''
         = Some [Pcolormesh [[Val (- 112), Val (- 111)], [Val (- 112), Val (- 111)]]
                      [[Val 41, Val 41], [Val 40, Val 40]]
                      [[NaN, Val 3], [Val 1, NaN]],
                 Text NaN NaN ''2131'']"
    by (simp_all add: views)
  then show ?thesis
    by (simp add: overview_map_unfold views fig split: sum.splits)
qed


text \<open>
  C7 as stated fails: with no cell of facet 2131 and a plotting library that draws every
  call, the cell ends without an exception and the image is written.
\<close>

theorem no_match_run_continues:
  "eq_int (heap unlabelled_session ! facets sample_vars) 2131 = [[False, False], [False, False]]
   \<and> snd (overview_map (\<lambda>_. None) sample_vars unlabelled_session) = None
   \<and> figures (fst (overview_map (\<lambda>_. None) sample_vars unlabelled_session))
         ''../figures/facet_orientations.png''
       = Some [Pcolormesh [[Val (- 112), Val (- 111)], [Val (- 112), Val (- 111)]]
                      [[Val 41, Val 41], [Val 40, Val 40]]
                      [[NaN, Val 3], [Val 1, NaN]],
               Text NaN NaN ''2131'']"
  by (simp add: overview_map_def alloc_def flat_to_nan_inplace_def flat_to_nan_cells
        facet_centroid_def bool_index_def shape_def eq_scalar_def and_then_def draw_def
        np_median_def unlabelled_session_def sample_heap_def sample_vars_def)

section \<open>What rendering reads and what it leaves alone\<close>

lemma overview_outcome_heap_irrelevant:
  assumes "h' ! lons v = h ! lons v" and "h' ! lats v = h ! lats v"
    and "h' ! facets v = h ! facets v" and "h' ! orientation v = h ! orientation v"
    and "lons v < length h" "lats v < length h" "facets v < length h"
    and "length h' = length h"
  shows "snd (overview_map lib v (s\<lparr>heap := h'\<rparr>)) = snd (overview_map lib v (s\<lparr>heap := h\<rparr>))"
    and "figures (fst (overview_map lib v (s\<lparr>heap := h'\<rparr>)))
         = figures (fst (overview_map lib v (s\<lparr>heap := h\<rparr>)))"
  using assms
  by (simp_all add: overview_map_unfold facet_centroid_def nth_append split: sum.splits)

lemma plot_days_figures_only:
  assumes "figures s1 = figures s2"
  shows "figures (fst (plot_days lib projex e ds s1)) = figures (fst (plot_days lib projex e ds s2))
       \<and> snd (plot_days lib projex e ds s1) = snd (plot_days lib projex e ds s2)"
  using assms
proof (induction ds arbitrary: s1 s2)
  case Nil
  then show ?case by simp
next
  case (Cons d ds)
  show ?case
  proof (cases "plot_day lib projex e d")
    case (Inl err)
    with Cons.prems show ?thesis by simp
  next
    case (Inr r)
    obtain name img where r: "r = (name, img)" by (cases r)
    have "figures (s1\<lparr>figures := (figures s1)(name \<mapsto> img)\<rparr>)
        = figures (s2\<lparr>figures := (figures s2)(name \<mapsto> img)\<rparr>)"
      using Cons.prems by simp
    from Cons.IH [OF this] Inr r show ?thesis
      by simp
  qed
qed

lemma plot_days_keeps_heap: "heap (fst (plot_days lib projex e ds s)) = heap s"
proof (induction ds arbitrary: s)
  case Nil
  then show ?case by simp
next
  case (Cons d ds)
  then show ?case
    by (cases "plot_day lib projex e d") (auto split: prod.splits)
qed

lemma timeseries_keeps_heap: "heap (fst (timeseries_plot lib strptime v s)) = heap s"
  by (simp add: timeseries_plot_def split: sum.splits)

lemma daily_plots_heap_irrelevant:
  assumes "h' ! lons v = h ! lons v"
  shows "snd (daily_plots lib v e (s\<lparr>heap := h'\<rparr>)) = snd (daily_plots lib v e (s\<lparr>heap := h\<rparr>))"
    and "figures (fst (daily_plots lib v e (s\<lparr>heap := h'\<rparr>)))
         = figures (fst (daily_plots lib v e (s\<lparr>heap := h\<rparr>)))"
proof -
  have "figures (s\<lparr>heap := h'\<rparr>) = figures (s\<lparr>heap := h\<rparr>)" by simp
  note plot_days_figures_only [OF this]
  then show "snd (daily_plots lib v e (s\<lparr>heap := h'\<rparr>)) = snd (daily_plots lib v e (s\<lparr>heap := h\<rparr>))"
    and "figures (fst (daily_plots lib v e (s\<lparr>heap := h'\<rparr>)))
         = figures (fst (daily_plots lib v e (s\<lparr>heap := h\<rparr>)))"
    using assms by (simp_all add: daily_plots_def split: sum.splits)
qed

lemma timeseries_heap_irrelevant:
  "snd (timeseries_plot lib strptime v (s\<lparr>heap := h'\<rparr>)) = snd (timeseries_plot lib strptime v s)"
  "figures (fst (timeseries_plot lib strptime v (s\<lparr>heap := h'\<rparr>)))
     = figures (fst (timeseries_plot lib strptime v s))"
  by (simp_all add: timeseries_plot_def split: sum.splits)

text \<open>
  C6, as amended. The notebook checks no shapes of its own; a mismatch is met only where
  an operation combines the arrays. In the overview cell, a longitude or latitude grid
  whose shape differs from the facet-id grid ends the cell with an exception (the
  \<^verbatim>\<open>IndexError\<close> of the centroid selection, or an exception of the plotting call before
  it) and no image is written. The elevation grid is read by no rendering cell: putting
  any array, of any shape, in its place changes neither the outcome nor the images of
  the overview map, of the time series and of the daily panels.
\<close>

theorem shape_mismatch_handling:
  assumes refs: "valid_refs v (heap s)"
  shows "(arr_shape (heap s ! lons v) \<noteq> arr_shape (heap s ! facets v)
          \<or> arr_shape (heap s ! lats v) \<noteq> arr_shape (heap s ! facets v)
          \<longrightarrow> snd (overview_map lib v s) \<noteq> None
              \<and> figures (fst (overview_map lib v s)) = figures s)
     \<and> (elev v \<notin> {facets v, lats v, lons v, orientation v}
          \<longrightarrow> snd (overview_map lib v (s\<lparr>heap := (heap s)[elev v := a]\<rparr>))
                = snd (overview_map lib v s)
              \<and> figures (fst (overview_map lib v (s\<lparr>heap := (heap s)[elev v := a]\<rparr>)))
                = figures (fst (overview_map lib v s))
              \<and> snd (timeseries_plot lib strptime v (s\<lparr>heap := (heap s)[elev v := a]\<rparr>))
                = snd (timeseries_plot lib strptime v s)
              \<and> figures (fst (timeseries_plot lib strptime v (s\<lparr>heap := (heap s)[elev v := a]\<rparr>)))
                = figures (fst (timeseries_plot lib strptime v s))
              \<and> snd (daily_plots lib v e (s\<lparr>heap := (heap s)[elev v := a]\<rparr>))
                = snd (daily_plots lib v e s)
              \<and> figures (fst (daily_plots lib v e (s\<lparr>heap := (heap s)[elev v := a]\<rparr>)))
                = figures (fst (daily_plots lib v e s)))"
proof (intro conjI impI)
  assume mis: "arr_shape (heap s ! lons v) \<noteq> arr_shape (heap s ! facets v)
          \<or> arr_shape (heap s ! lats v) \<noteq> arr_shape (heap s ! facets v)"
  have c: "facet_centroid (heap s @ [FloatArr (flat_to_nan (astype_float (heap s ! orientation v)))]) v 2131
      = Inl IndexError"
    using facet_centroid_mismatch [OF mis] by (simp add: facet_centroid_append [OF refs])
  show "snd (overview_map lib v s) \<noteq> None"
    by (simp add: overview_map_unfold c and_then_def draw_def split: option.splits)
  show "figures (fst (overview_map lib v s)) = figures s"
    by (simp add: overview_map_unfold c and_then_def draw_def split: option.splits)
next
  assume d: "elev v \<notin> {facets v, lats v, lons v, orientation v}"
  have id: "s\<lparr>heap := heap s\<rparr> = s" by simp
  with overview_outcome_heap_irrelevant [of "(heap s)[elev v := a]" v "heap s" lib s] d refs
  show "snd (overview_map lib v (s\<lparr>heap := (heap s)[elev v := a]\<rparr>)) = snd (overview_map lib v s)"
    and "figures (fst (overview_map lib v (s\<lparr>heap := (heap s)[elev v := a]\<rparr>)))
                = figures (fst (overview_map lib v s))"
    by (simp_all add: valid_refs_def)
  show "snd (timeseries_plot lib strptime v (s\<lparr>heap := (heap s)[elev v := a]\<rparr>))
                = snd (timeseries_plot lib strptime v s)"
    and "figures (fst (timeseries_plot lib strptime v (s\<lparr>heap := (heap s)[elev v := a]\<rparr>)))
                = figures (fst (timeseries_plot lib strptime v s))"
    by (rule timeseries_heap_irrelevant)+
  from d have "(heap s)[elev v := a] ! lons v = heap s ! lons v"
    by simp
  from daily_plots_heap_irrelevant [OF this, of lib e s] id
  show "snd (daily_plots lib v e (s\<lparr>heap := (heap s)[elev v := a]\<rparr>)) = snd (daily_plots lib v e s)"
    and "figures (fst (daily_plots lib v e (s\<lparr>heap := (heap s)[elev v := a]\<rparr>)))
                = figures (fst (daily_plots lib v e s))"
    by simp_all
qed

theorem shape_mismatch_handling_witness:
  "snd (overview_map (\<lambda>_. None) sample_vars short_lons_session) = Some IndexError
   \<and> figures (fst (overview_map (\<lambda>_. None) sample_vars short_lons_session)) = (\<lambda>_. None)
   \<and> snd (overview_map (\<lambda>_. None) sample_vars odd_elev_session)
       = snd (overview_map (\<lambda>_. None) sample_vars sample_session)
   \<and> figures (fst (overview_map (\<lambda>_. None) sample_vars odd_elev_session))
       = figures (fst (overview_map (\<lambda>_. None) sample_vars sample_session))
   \<and> snd (daily_plots (\<lambda>_. None) sample_vars sample_era5 odd_elev_session)
       = snd (daily_plots (\<lambda>_. None) sample_vars sample_era5 sample_session)
   \<and> figures (fst (daily_plots (\<lambda>_. None) sample_vars sample_era5 odd_elev_session))
       = figures (fst (daily_plots (\<lambda>_. None) sample_vars sample_era5 sample_session))"
proof -
  have refs: "valid_refs sample_vars (heap short_lons_session)"
    "valid_refs sample_vars (heap sample_session)"
    by (simp_all add: valid_refs_def sample_vars_def short_lons_session_def sample_session_def
          sample_heap_def)
  have mis: "arr_shape (heap short_lons_session ! lons sample_vars)
      \<noteq> arr_shape (heap short_lons_session ! facets sample_vars)"
    by (simp add: sample_vars_def short_lons_session_def sample_heap_def shape_def)
  have d: "elev sample_vars \<notin> {facets sample_vars, lats sample_vars, lons sample_vars,
      orientation sample_vars}"
    by (simp add: sample_vars_def)
  have o: "odd_elev_session
      = sample_session\<lparr>heap := (heap sample_session)[elev sample_vars := FloatArr [[Val 1500]]]\<rparr>"
    by (simp add: odd_elev_session_def sample_session_def sample_vars_def)
  have e: "snd (overview_map (\<lambda>_. None) sample_vars short_lons_session) = Some IndexError"
    by (simp add: overview_map_def alloc_def flat_to_nan_inplace_def facet_centroid_def
          bool_index_def shape_def eq_scalar_def and_then_def draw_def
          short_lons_session_def sample_heap_def sample_vars_def)
  have f: "figures short_lons_session = (\<lambda>_. None)"
    by (simp add: short_lons_session_def)
  from shape_mismatch_handling [OF refs(1), where lib = "\<lambda>_. None"] mis
    shape_mismatch_handling [OF refs(2), where lib = "\<lambda>_. None" and a = "FloatArr [[Val 1500]]"
      and e = sample_era5] d
  show ?thesis
    by (simp add: e f o)
qed

text \<open>
  C6 as stated fails: an elevation grid of one cell beside facet, latitude, longitude
  and orientation grids of two rows and two columns is not rejected, and the overview
  image is written.
\<close>

theorem elevation_shape_unchecked:
  "arr_shape (heap odd_elev_session ! elev sample_vars) = (1, 1)
   \<and> arr_shape (heap odd_elev_session ! facets sample_vars) = (2, 2)
   \<and> snd (overview_map (\<lambda>_. None) sample_vars odd_elev_session) = None
   \<and> figures (fst (overview_map (\<lambda>_. None) sample_vars odd_elev_session))
         ''../figures/facet_orientations.png''
       = Some [Pcolormesh [[Val (- 112), Val (- 111)], [Val (- 112), Val (- 111)]]
                      [[Val 41, Val 41], [Val 40, Val 40]]
                      [[NaN, Val 3], [Val 1, NaN]],
               Text (Val (- 112)) (Val 40) ''2131'']"
  by (simp add: overview_map_def alloc_def flat_to_nan_inplace_def flat_to_nan_cells
        facet_centroid_def bool_index_def shape_def eq_scalar_def and_then_def draw_def
        np_median_def odd_elev_session_def sample_heap_def sample_vars_def)


text \<open>
  C8. Rendering changes no loaded array. The overview cell leaves every array that was
  in the store as it was and adds one array, the masked float copy of the orientation
  grid, at an address of its own; the time-series cell and the daily panels leave the
  store as it is. The table of gradients and the atmospheric datasets are arguments of
  the cells, which return only the store and the figures: the one in-place assignment
  of the notebook is the masking of the copy.
\<close>

theorem rendering_frame:
  "(\<forall>p < length (heap s). heap (fst (overview_map lib v s)) ! p = heap s ! p)
   \<and> length (heap (fst (overview_map lib v s))) = Suc (length (heap s))
   \<and> heap (fst (overview_map lib v s)) ! length (heap s)
       = FloatArr (flat_to_nan (astype_float (heap s ! orientation v)))
   \<and> (valid_refs v (heap s) \<longrightarrow>
         orientation v \<noteq> length (heap s)
       \<and> heap (fst (overview_map lib v s)) ! elev v = heap s ! elev v
       \<and> heap (fst (overview_map lib v s)) ! facets v = heap s ! facets v
       \<and> heap (fst (overview_map lib v s)) ! lats v = heap s ! lats v
       \<and> heap (fst (overview_map lib v s)) ! lons v = heap s ! lons v
       \<and> heap (fst (overview_map lib v s)) ! orientation v = heap s ! orientation v)
   \<and> heap (fst (timeseries_plot lib strptime v s)) = heap s
   \<and> heap (fst (daily_plots lib v e s)) = heap s"
  by (simp add: overview_heap nth_append valid_refs_def timeseries_keeps_heap
        daily_plots_def plot_days_keeps_heap split: sum.splits)

theorem rendering_frame_witness:
  "heap (fst (overview_map (\<lambda>_. None) sample_vars sample_session))
     = sample_heap @ [FloatArr [[NaN, Val 3], [Val 1, NaN]]]
   \<and> heap (fst (overview_map (\<lambda>_. None) sample_vars sample_session)) ! orientation sample_vars
     = IntArr [[9, 3], [1, 9]]
   \<and> orientation sample_vars \<noteq> length (heap sample_session)
   \<and> heap (fst (timeseries_plot (\<lambda>_. None) (\<lambda>_. Inr 0) sample_vars sample_session)) = sample_heap
   \<and> heap (fst (daily_plots (\<lambda>_. None) sample_vars sample_era5 sample_session)) = sample_heap"
proof -
  have refs: "valid_refs sample_vars (heap sample_session)"
    by (simp add: valid_refs_def sample_vars_def sample_session_def sample_heap_def)
  have h: "heap sample_session = sample_heap"
    by (simp add: sample_session_def)
  have o: "sample_heap ! orientation sample_vars = IntArr [[9, 3], [1, 9]]"
    by (simp add: sample_heap_def sample_vars_def)
  have n: "orientation sample_vars < length sample_heap"
    by (simp add: sample_heap_def sample_vars_def)
  from rendering_frame [where s = sample_session and lib = "\<lambda>_. None" and v = sample_vars
      and strptime = "\<lambda>_. Inr 0" and e = sample_era5] refs
  show ?thesis
    using n by (simp add: h o sample_overview nth_append)
qed

section \<open>The daily panels\<close>

lemma get_day_Inr: "get_day a d = Inr x \<longleftrightarrow> d < length a \<and> x = a ! d"
  by (auto simp: get_day_def)

lemma field_of_day_Inr:
  "field_of_day ds name d = Inr z \<longleftrightarrow>
     (\<exists>a. map_of (data_vars ds) name = Some a \<and> d < length a \<and> z = a ! d)"
  by (auto simp: field_of_day_def get_var_def and_then_Inr get_day_Inr split: option.splits)


lemma wf_var_length:
  assumes "wf_dataset ds" and "map_of (data_vars ds) name = Some a"
  shows "length a = length (time ds)"
proof -
  from assms(2) have "(name, a) \<in> set (data_vars ds)"
    by (rule map_of_SomeD)
  with assms(1) show ?thesis
    by (auto simp: wf_dataset_def list_all_iff)
qed


lemma plot_day_accepting:
  assumes lib: "\<And>c. lib c = None"
    and vars: "map_of (data_vars (IVT e)) ''IVT'' = Some a1"
      "map_of (data_vars (hgt500 e)) ''hgt'' = Some a2"
      "map_of (data_vars (precip e)) ''precip'' = Some a3"
      "map_of (data_vars (uwinds700 e)) ''uwnd'' = Some a4"
      "map_of (data_vars (vwinds700 e)) ''vwnd'' = Some a5"
      "map_of (data_vars (temp700 e)) ''temp'' = Some a6"
  shows "plot_day lib projex e d =
     (if d < length a1 \<and> d < length a2 \<and> d < length a3 \<and> d < length a4 \<and> d < length a5
         \<and> d < length a6 \<and> d < length (time (IVT e))
      then Inr (''../figures/atmos_'' @ datetime_as_string_D (time (IVT e) ! d) @ ''.png'',
            [projex,
             Contourf (longitude (IVT e)) (latitude (IVT e)) (a1 ! d),
             Contour (longitude (hgt500 e)) (latitude (hgt500 e)) (a2 ! d),
             Contourf (longitude (precip e)) (latitude (precip e)) (a3 ! d),
             Contourf (longitude (uwinds700 e)) (latitude (uwinds700 e)) (a4 ! d),
             Contourf (longitude (vwinds700 e)) (latitude (vwinds700 e)) (a5 ! d),
             Contourf (longitude (temp700 e)) (latitude (temp700 e)) (a6 ! d),
             Barbs (stride5 (longitude (uwinds700 e))) (stride5 (latitude (uwinds700 e)))
               (knots (a4 ! d)) (knots (a5 ! d)),
             Barbs (stride5 (longitude (uwinds700 e))) (stride5 (latitude (uwinds700 e)))
               (knots (a4 ! d)) (knots (a5 ! d)),
             Suptitle (datetime_as_string_D (time (IVT e) ! d))])
      else Inl IndexError)"
  by (simp add: plot_day_def field_of_day_def get_var_def get_day_def and_then_def draw_def lib vars)

lemma plot_days_outcome:
  "snd (plot_days lib projex e ds s) = None \<longleftrightarrow> (\<forall>d \<in> set ds. \<exists>r. plot_day lib projex e d = Inr r)"
proof (induction ds arbitrary: s)
  case Nil
  then show ?case by simp
next
  case (Cons d ds)
  then show ?case
    by (cases "plot_day lib projex e d") (auto split: prod.splits)
qed

lemma plot_days_error:
  "snd (plot_days lib projex e ds s) = Some err \<Longrightarrow> \<exists>d \<in> set ds. plot_day lib projex e d = Inl err"
proof (induction ds arbitrary: s)
  case Nil
  then show ?case by simp
next
  case (Cons d ds)
  then show ?case
    by (cases "plot_day lib projex e d") (auto split: prod.splits)
qed

text \<open>
  C9. The loop of the daily panels runs over the positions of the IVT time axis and takes
  every one of the six variables at the same position. With datasets as xarray keeps
  them, each holding its variable, and a plotting library that draws every call, the
  loop completes exactly when each of the other five time axes is at least as long as
  the one of IVT; otherwise it ends with the \<^verbatim>\<open>IndexError\<close> of the first position beyond
  a shorter axis, and it ends with no other exception. A pass at a position of the IVT
  axis either ends so or draws the six variables at that position.
\<close>

theorem daily_indexing:
  assumes lib: "\<And>c. lib c = None"
    and vars: "map_of (data_vars (IVT e)) ''IVT'' = Some a1"
      "map_of (data_vars (hgt500 e)) ''hgt'' = Some a2"
      "map_of (data_vars (precip e)) ''precip'' = Some a3"
      "map_of (data_vars (uwinds700 e)) ''uwnd'' = Some a4"
      "map_of (data_vars (vwinds700 e)) ''vwnd'' = Some a5"
      "map_of (data_vars (temp700 e)) ''temp'' = Some a6"
    and wf: "wf_dataset (IVT e)" "wf_dataset (hgt500 e)" "wf_dataset (precip e)"
      "wf_dataset (uwinds700 e)" "wf_dataset (vwinds700 e)" "wf_dataset (temp700 e)"
  shows "(snd (daily_plots lib v e s) = None \<longleftrightarrow>
           length (time (IVT e)) \<le> length (time (hgt500 e))
         \<and> length (time (IVT e)) \<le> length (time (precip e))
         \<and> length (time (IVT e)) \<le> length (time (uwinds700 e))
         \<and> length (time (IVT e)) \<le> length (time (vwinds700 e))
         \<and> length (time (IVT e)) \<le> length (time (temp700 e)))
     \<and> (snd (daily_plots lib v e s) \<noteq> None \<longrightarrow> snd (daily_plots lib v e s) = Some IndexError)
     \<and> daily_plots lib v e s
         = plot_days lib (Mercator (np_mean (astype_float (heap s ! lons v)))) e
             [0..<length (time (IVT e))] s
     \<and> (\<forall>d < length (time (IVT e)).
           plot_day lib projex e d = Inl IndexError
           \<or> plot_day lib projex e d =
                 Inr (''../figures/atmos_'' @ datetime_as_string_D (time (IVT e) ! d) @ ''.png'',
                   [projex,
                    Contourf (longitude (IVT e)) (latitude (IVT e)) (a1 ! d),
                    Contour (longitude (hgt500 e)) (latitude (hgt500 e)) (a2 ! d),
                    Contourf (longitude (precip e)) (latitude (precip e)) (a3 ! d),
                    Contourf (longitude (uwinds700 e)) (latitude (uwinds700 e)) (a4 ! d),
                    Contourf (longitude (vwinds700 e)) (latitude (vwinds700 e)) (a5 ! d),
                    Contourf (longitude (temp700 e)) (latitude (temp700 e)) (a6 ! d),
                    Barbs (stride5 (longitude (uwinds700 e))) (stride5 (latitude (uwinds700 e)))
                      (knots (a4 ! d)) (knots (a5 ! d)),
                    Barbs (stride5 (longitude (uwinds700 e))) (stride5 (latitude (uwinds700 e)))
                      (knots (a4 ! d)) (knots (a5 ! d)),
                    Suptitle (datetime_as_string_D (time (IVT e) ! d))]))
     \<and> (\<forall>d < length (time (IVT e)).
           plot_day lib projex e d = Inl IndexError \<longleftrightarrow>
             length (time (hgt500 e)) \<le> d \<or> length (time (precip e)) \<le> d
           \<or> length (time (uwinds700 e)) \<le> d \<or> length (time (vwinds700 e)) \<le> d
           \<or> length (time (temp700 e)) \<le> d)"
proof -
  note pd = plot_day_accepting [OF lib vars]
  have len: "length a1 = length (time (IVT e))" "length a2 = length (time (hgt500 e))"
    "length a3 = length (time (precip e))" "length a4 = length (time (uwinds700 e))"
    "length a5 = length (time (vwinds700 e))" "length a6 = length (time (temp700 e))"
    using wf vars by (simp_all add: wf_var_length)
  let ?n = "length (time (IVT e))"
  let ?fits = "?n \<le> length (time (hgt500 e)) \<and> ?n \<le> length (time (precip e))
         \<and> ?n \<le> length (time (uwinds700 e)) \<and> ?n \<le> length (time (vwinds700 e))
         \<and> ?n \<le> length (time (temp700 e))"
  let ?m = "Mercator (np_mean (astype_float (heap s ! lons v)))"
  have dp: "daily_plots lib v e s = plot_days lib ?m e [0..<?n] s"
    by (simp add: daily_plots_def draw_def lib)
  have ok: "(\<exists>r. plot_day lib p e d = Inr r) \<longleftrightarrow>
      d < ?n \<and> d < length (time (hgt500 e)) \<and> d < length (time (precip e))
      \<and> d < length (time (uwinds700 e)) \<and> d < length (time (vwinds700 e))
      \<and> d < length (time (temp700 e))" for d p
    by (auto simp: pd len)
  have "snd (daily_plots lib v e s) = None \<longleftrightarrow> (\<forall>d < ?n. \<exists>r. plot_day lib ?m e d = Inr r)"
    by (auto simp: dp plot_days_outcome)
  also have "\<dots> \<longleftrightarrow> ?fits"
  proof
    assume a: "\<forall>d < ?n. \<exists>r. plot_day lib ?m e d = Inr r"
    show ?fits
    proof (rule ccontr)
      assume "\<not> ?fits"
      then obtain m where "m < ?n" and "m = length (time (hgt500 e)) \<or> m = length (time (precip e))
          \<or> m = length (time (uwinds700 e)) \<or> m = length (time (vwinds700 e))
          \<or> m = length (time (temp700 e))"
        by (metis not_le)
      with a ok [of ?m m] show False by auto
    qed
  next
    assume ?fits
    then show "\<forall>d < ?n. \<exists>r. plot_day lib ?m e d = Inr r"
      unfolding ok by auto
  qed
  finally have first: "snd (daily_plots lib v e s) = None \<longleftrightarrow> ?fits" .
  have second: "snd (daily_plots lib v e s) = Some IndexError" if "snd (daily_plots lib v e s) \<noteq> None"
  proof -
    from that obtain err where err: "snd (daily_plots lib v e s) = Some err" by auto
    then obtain d where "plot_day lib ?m e d = Inl err"
      unfolding dp by (blast dest: plot_days_error)
    then have "err = IndexError"
      by (simp add: pd split: if_splits)
    with err show ?thesis by simp
  qed
  have third: "plot_day lib projex e d = Inl IndexError
           \<or> plot_day lib projex e d =
                 Inr (''../figures/atmos_'' @ datetime_as_string_D (time (IVT e) ! d) @ ''.png'',
                   [projex,
                    Contourf (longitude (IVT e)) (latitude (IVT e)) (a1 ! d),
                    Contour (longitude (hgt500 e)) (latitude (hgt500 e)) (a2 ! d),
                    Contourf (longitude (precip e)) (latitude (precip e)) (a3 ! d),
                    Contourf (longitude (uwinds700 e)) (latitude (uwinds700 e)) (a4 ! d),
                    Contourf (longitude (vwinds700 e)) (latitude (vwinds700 e)) (a5 ! d),
                    Contourf (longitude (temp700 e)) (latitude (temp700 e)) (a6 ! d),
                    Barbs (stride5 (longitude (uwinds700 e))) (stride5 (latitude (uwinds700 e)))
                      (knots (a4 ! d)) (knots (a5 ! d)),
                    Barbs (stride5 (longitude (uwinds700 e))) (stride5 (latitude (uwinds700 e)))
                      (knots (a4 ! d)) (knots (a5 ! d)),
                    Suptitle (datetime_as_string_D (time (IVT e) ! d))])" for d
    by (simp add: pd)
  have fourth: "plot_day lib projex e d = Inl IndexError \<longleftrightarrow>
             length (time (hgt500 e)) \<le> d \<or> length (time (precip e)) \<le> d
           \<or> length (time (uwinds700 e)) \<le> d \<or> length (time (vwinds700 e)) \<le> d
           \<or> length (time (temp700 e)) \<le> d" if "d < ?n" for d
    using that by (auto simp: pd len)
  from first second dp third fourth show ?thesis by blast
qed

text \<open>
  The sample month completes; with the geopotential height cut to seven days, the loop
  over the 31 days of IVT ends with an \<^verbatim>\<open>IndexError\<close>, at the eighth day.
\<close>

lemma sample_vars_present:
  "map_of (data_vars (IVT sample_era5)) ''IVT'' = Some (map (\<lambda>k. [[Val (real k), NaN], [Val 0, Val 1]]) [0..<31])"
  "map_of (data_vars (hgt500 sample_era5)) ''hgt''
     = Some (map (map (map (\<lambda>x. fdiv x 9.81))) (map (\<lambda>k. [[Val (49050 + real k), NaN], [Val 49050, Val (49050 * 2)]]) [0..<31]))"
  "map_of (data_vars (precip sample_era5)) ''precip''
     = Some (map (map (map (\<lambda>x. fmul x 1000))) (map (\<lambda>k. [[Val (0.002 + real k), NaN], [Val 0.002, Val (0.002 * 2)]]) [0..<31]))"
  "map_of (data_vars (uwinds700 sample_era5)) ''uwnd''
     = Some (map (\<lambda>k. [[Val (5 + real k), NaN], [Val 5, Val (5 * 2)]]) [0..<31])"
  "map_of (data_vars (vwinds700 sample_era5)) ''vwnd''
     = Some (map (\<lambda>k. [[Val (- 3 + real k), NaN], [Val (- 3), Val (- 3 * 2)]]) [0..<31])"
  "map_of (data_vars (temp700 sample_era5)) ''temp''
     = Some (map (map (map (\<lambda>x. fsub x 273.15))) (map (\<lambda>k. [[Val (270 + real k), NaN], [Val 270, Val (270 * 2)]]) [0..<31]))"
  by (simp_all add: sample_era5_def january_2017_def sample_field_def ds_mul_def ds_sub_def
        ds_div_def map_data_def del: upt.simps)

lemma sample_wf:
  "wf_dataset (IVT sample_era5)" "wf_dataset (hgt500 sample_era5)" "wf_dataset (precip sample_era5)"
  "wf_dataset (uwinds700 sample_era5)" "wf_dataset (vwinds700 sample_era5)"
  "wf_dataset (temp700 sample_era5)"
  by (simp_all add: sample_era5_def january_2017_def sample_field_def ds_mul_def ds_sub_def
        ds_div_def map_data_def wf_dataset_def list_all_iff del: upt.simps)

theorem daily_indexing_witness:
  "snd (daily_plots (\<lambda>_. None) sample_vars sample_era5 sample_session) = None
   \<and> length (time (IVT sample_era5)) = 31 \<and> length (time (hgt500 sample_era5)) = 31
   \<and> snd (daily_plots (\<lambda>_. None) sample_vars uneven_era5 sample_session) = Some IndexError
   \<and> length (time (IVT uneven_era5)) = 31 \<and> length (time (hgt500 uneven_era5)) = 7
   \<and> (\<exists>r. plot_day (\<lambda>_. None) (Mercator (Val 0)) uneven_era5 6 = Inr r)
   \<and> plot_day (\<lambda>_. None) (Mercator (Val 0)) uneven_era5 7 = Inl IndexError"
proof -
  have l: "length (time (IVT sample_era5)) = 31" "length (time (hgt500 sample_era5)) = 31"
    "length (time (precip sample_era5)) = 31" "length (time (uwinds700 sample_era5)) = 31"
    "length (time (vwinds700 sample_era5)) = 31" "length (time (temp700 sample_era5)) = 31"
    by (simp_all add: sample_era5_def january_2017_def sample_field_def ds_mul_def ds_sub_def
          ds_div_def map_data_def del: upt.simps)
  have u: "IVT uneven_era5 = IVT sample_era5" "precip uneven_era5 = precip sample_era5"
    "uwinds700 uneven_era5 = uwinds700 sample_era5" "vwinds700 uneven_era5 = vwinds700 sample_era5"
    "temp700 uneven_era5 = temp700 sample_era5"
    "time (hgt500 uneven_era5) = take 7 (time (hgt500 sample_era5))"
    "data_vars (hgt500 uneven_era5) = map (\<lambda>(n, arr). (n, take 7 arr)) (data_vars (hgt500 sample_era5))"
    by (simp_all add: uneven_era5_def first_week_def)
  have uv: "map_of (data_vars (hgt500 uneven_era5)) ''hgt''
     = Some (take 7 (map (map (map (\<lambda>x. fdiv x 9.81))) (map (\<lambda>k. [[Val (49050 + real k), NaN], [Val 49050, Val (49050 * 2)]]) [0..<31])))"
    unfolding u by (simp add: sample_era5_def sample_field_def ds_div_def map_data_def del: upt.simps)
  have uw: "wf_dataset (hgt500 uneven_era5)"
    by (simp add: wf_dataset_def list_all_iff uneven_era5_def first_week_def sample_era5_def
          sample_field_def ds_div_def map_data_def take_map del: upt.simps)
  note a = daily_indexing [where lib = "\<lambda>_. None" and e = sample_era5 and v = sample_vars
      and s = sample_session and projex = "Mercator (Val 0)", OF _ sample_vars_present sample_wf]
  note b = daily_indexing [where lib = "\<lambda>_. None" and e = uneven_era5 and v = sample_vars
      and s = sample_session and projex = "Mercator (Val 0)", unfolded u(1-5),
      OF _ sample_vars_present(1) uv sample_vars_present(3-6) sample_wf(1) uw sample_wf(3-6)]
  have ul: "length (time (hgt500 uneven_era5)) = 7"
    by (simp add: u l)
  from a [THEN conjunct1] have 1: "snd (daily_plots (\<lambda>_. None) sample_vars sample_era5 sample_session) = None"
    by (simp add: l)
  from b [THEN conjunct1] have "snd (daily_plots (\<lambda>_. None) sample_vars uneven_era5 sample_session) \<noteq> None"
    by (simp add: l ul)
  with b [THEN conjunct2, THEN conjunct1]
  have 2: "snd (daily_plots (\<lambda>_. None) sample_vars uneven_era5 sample_session) = Some IndexError"
    by blast
  from b [THEN conjunct2, THEN conjunct2, THEN conjunct2, THEN conjunct2]
  have ix: "\<forall>d<31. plot_day (\<lambda>_. None) (Mercator (Val 0)) uneven_era5 d = Inl IndexError \<longleftrightarrow> 7 \<le> d"
    by (simp add: l ul)
  from b [THEN conjunct2, THEN conjunct2, THEN conjunct2, THEN conjunct1]
  have alt: "\<forall>d<31. plot_day (\<lambda>_. None) (Mercator (Val 0)) uneven_era5 d = Inl IndexError
      \<or> (\<exists>r. plot_day (\<lambda>_. None) (Mercator (Val 0)) uneven_era5 d = Inr r)"
    unfolding l by blast
  from ix have 4: "plot_day (\<lambda>_. None) (Mercator (Val 0)) uneven_era5 7 = Inl IndexError"
    by simp
  from ix have "plot_day (\<lambda>_. None) (Mercator (Val 0)) uneven_era5 6 \<noteq> Inl IndexError"
    by simp
  moreover have "(6::nat) < 31" by simp
  ultimately have 3: "\<exists>r. plot_day (\<lambda>_. None) (Mercator (Val 0)) uneven_era5 6 = Inr r"
    using alt by blast
  from 1 2 3 4 show ?thesis
    by (simp add: l ul u(1))
qed

section \<open>The files of the daily panels\<close>












end
